theory Spec2Isabelle
  imports Main "HOL-Library.Word" "HOL-Library.Sublist"
begin

unbundle bit_operations_syntax

section \<open>Listener socket bring-up of the posix event engine\<close>

text \<open>
  A shallow embedding of \<^verbatim>\<open>posix_engine_listener_utils.cc\<close>. The operating system and the
  socket wrapper (\<^verbatim>\<open>PosixSocketWrapper\<close>) are not part of the file: every call into them is
  an oracle of the record \<open>os\<close>, which may answer differently in every world. The program's
  own control flow, its error values, its calls to \<^verbatim>\<open>close\<close> and its \<^verbatim>\<open>CHECK\<close>s are
  modelled as written.
\<close>

subsection \<open>Status values\<close>

datatype StatusCode = kInternal | kFailedPrecondition | kNotFound | kUnknown | kUnavailable

text \<open>A non-OK \<^verbatim>\<open>absl::Status\<close>: its code and its message.\<close>

datatype Error = Error (code: StatusCode) (message: string)

text \<open>\<^verbatim>\<open>absl::Status\<close>: \<open>None\<close> is \<^verbatim>\<open>absl::OkStatus()\<close>.\<close>

type_synonym Status = "Error option"

text \<open>\<^verbatim>\<open>absl::StatusOr<T>\<close>: \<open>Inl\<close> holds the non-OK status, \<open>Inr\<close> the value.\<close>

type_synonym 'a StatusOr = "Error + 'a"

text \<open>\<^verbatim>\<open>StatusOr::ok()\<close>.\<close>

definition ok :: "'a StatusOr \<Rightarrow> bool" where
  "ok r = (case r of Inl e \<Rightarrow> False | Inr v \<Rightarrow> True)"

definition FailedPreconditionError :: "string \<Rightarrow> Error" where
  "FailedPreconditionError msg = Error kFailedPrecondition msg"

text \<open>
  A call either returns or ends the process: a failed \<^verbatim>\<open>CHECK\<close>, \<^verbatim>\<open>grpc_core::Crash\<close>, or
  \<^verbatim>\<open>operator*\<close> on a \<^verbatim>\<open>StatusOr\<close> that holds an error.
\<close>

datatype 'a outcome = Crashed | Returned 'a

subsection \<open>Resolved addresses\<close>

datatype sa_family_t = AF_INET | AF_INET6 | AF_UNIX | AF_VSOCK | AF_UNSPEC

text \<open>
  \<^verbatim>\<open>EventEngine::ResolvedAddress\<close>: a zero-filled buffer of fixed capacity holding a native
  socket address, and its length. The fields of the native address are kept apart: the
  family, the port (host byte order), the bytes of \<^verbatim>\<open>sin_addr\<close>, \<^verbatim>\<open>sin6_addr\<close> or
  \<^verbatim>\<open>sun_path\<close> as they lie in memory (network order), and the two remaining words of a
  \<^verbatim>\<open>sockaddr_in6\<close>. Two addresses are byte-identical iff the records are equal.
\<close>

record ResolvedAddress =
  sa_family :: sa_family_t
  sa_port :: int
  sa_addr :: "8 word list"
  sin6_flowinfo :: nat
  sin6_scope_id :: nat
  sa_size :: nat

text \<open>A read inside the buffer but past the stored bytes finds the zero fill.\<close>

definition addr_byte :: "ResolvedAddress \<Rightarrow> nat \<Rightarrow> 8 word" where
  "addr_byte a i = (if i < length (sa_addr a) then sa_addr a ! i else 0)"

definition sizeof_sockaddr_in :: nat where
  "sizeof_sockaddr_in = 16"

definition sizeof_sockaddr_in6 :: nat where
  "sizeof_sockaddr_in6 = 28"

text \<open>
  Modelled from the spec: the helpers of \<^verbatim>\<open>tcp_socket_utils.h\<close> are not in the file.
  \<^verbatim>\<open>ResolvedAddressMakeWild4\<close> and \<^verbatim>\<open>ResolvedAddressMakeWild6\<close> return the all-zeros address
  of the family with the given port encoded.
\<close>

definition ResolvedAddressMakeWild4 :: "int \<Rightarrow> ResolvedAddress" where
  "ResolvedAddressMakeWild4 p =
     \<lparr>sa_family = AF_INET, sa_port = p, sa_addr = replicate 4 0,
      sin6_flowinfo = 0, sin6_scope_id = 0, sa_size = sizeof_sockaddr_in\<rparr>"

definition ResolvedAddressMakeWild6 :: "int \<Rightarrow> ResolvedAddress" where
  "ResolvedAddressMakeWild6 p =
     \<lparr>sa_family = AF_INET6, sa_port = p, sa_addr = replicate 16 0,
      sin6_flowinfo = 0, sin6_scope_id = 0, sa_size = sizeof_sockaddr_in6\<rparr>"

text \<open>
  Modelled from the spec: \<^verbatim>\<open>ResolvedAddressSetPort\<close> sets the port of an address and
  \<^verbatim>\<open>ResolvedAddressGetPort\<close> reads it.
\<close>

definition ResolvedAddressSetPort :: "ResolvedAddress \<Rightarrow> int \<Rightarrow> ResolvedAddress" where
  "ResolvedAddressSetPort a p = a\<lparr>sa_port := p\<rparr>"

definition ResolvedAddressGetPort :: "ResolvedAddress \<Rightarrow> int" where
  "ResolvedAddressGetPort a = sa_port a"

text \<open>
  Modelled from the spec: \<^verbatim>\<open>ResolvedAddressIsV4Mapped\<close> recognises an IPv4-mapped IPv6
  literal (\<^verbatim>\<open>::ffff:a.b.c.d\<close>) and gives its plain IPv4 form, with the same port.
\<close>

definition kV4MappedPrefix :: "8 word list" where
  "kV4MappedPrefix = [0, 0, 0, 0, 0, 0, 0, 0, 0, 0, 0xff, 0xff]"

definition ResolvedAddressIsV4Mapped :: "ResolvedAddress \<Rightarrow> ResolvedAddress option" where
  "ResolvedAddressIsV4Mapped a =
     (if sa_family a = AF_INET6 \<and> map (addr_byte a) [0..<12] = kV4MappedPrefix
      then Some \<lparr>sa_family = AF_INET, sa_port = sa_port a,
                 sa_addr = map (addr_byte a) [12..<16],
                 sin6_flowinfo = 0, sin6_scope_id = 0, sa_size = sizeof_sockaddr_in\<rparr>
      else None)"

text \<open>Modelled from the spec: \<^verbatim>\<open>ResolvedAddressIsVSock\<close> tests the family.\<close>

definition ResolvedAddressIsVSock :: "ResolvedAddress \<Rightarrow> bool" where
  "ResolvedAddressIsVSock a = (sa_family a = AF_VSOCK)"

subsection \<open>Link-local addresses\<close>

datatype endianness = LittleEndian | BigEndian

text \<open>\<^verbatim>\<open>memcpy\<close> of four bytes into a \<^verbatim>\<open>uint32_t\<close>, and the bytes of a \<^verbatim>\<open>uint32_t\<close> in memory.\<close>

definition load32 :: "endianness \<Rightarrow> 8 word \<Rightarrow> 8 word \<Rightarrow> 8 word \<Rightarrow> 8 word \<Rightarrow> 32 word" where
  "load32 e b0 b1 b2 b3 =
     (case e of
        LittleEndian \<Rightarrow>
          ucast b0 OR push_bit 8 (ucast b1) OR push_bit 16 (ucast b2) OR push_bit 24 (ucast b3)
      | BigEndian \<Rightarrow>
          ucast b3 OR push_bit 8 (ucast b2) OR push_bit 16 (ucast b1) OR push_bit 24 (ucast b0))"

definition store32 :: "endianness \<Rightarrow> 32 word \<Rightarrow> 8 word list" where
  "store32 e x =
     (case e of
        LittleEndian \<Rightarrow>
          [ucast x, ucast (drop_bit 8 x), ucast (drop_bit 16 x), ucast (drop_bit 24 x)]
      | BigEndian \<Rightarrow>
          [ucast (drop_bit 24 x), ucast (drop_bit 16 x), ucast (drop_bit 8 x), ucast x])"

text \<open>\<^verbatim>\<open>htonl\<close>: the identity on a big-endian host, a byte swap on a little-endian one.\<close>

definition htonl :: "endianness \<Rightarrow> 32 word \<Rightarrow> 32 word" where
  "htonl e x =
     (case e of
        BigEndian \<Rightarrow> x
      | LittleEndian \<Rightarrow>
          load32 LittleEndian (ucast (drop_bit 24 x)) (ucast (drop_bit 16 x))
            (ucast (drop_bit 8 x)) (ucast x))"

text \<open>\<^verbatim>\<open>memcmp(p, q, n) == 0\<close> on two byte sequences.\<close>

definition memcmp_eq :: "8 word list \<Rightarrow> 8 word list \<Rightarrow> nat \<Rightarrow> bool" where
  "memcmp_eq p q n = (take n p = take n q)"

definition kV4LinkLocalPrefix :: "8 word list" where
  "kV4LinkLocalPrefix = [0xa9, 0xfe]"

definition kV6LinkLocalPrefix :: "8 word list" where
  "kV6LinkLocalPrefix = [0xfe, 0x80]"

definition IsSockAddrLinkLocal :: "endianness \<Rightarrow> ResolvedAddress \<Rightarrow> bool" where
  "IsSockAddrLinkLocal e resolved_addr =
     (if sa_family resolved_addr = AF_INET then
        (if memcmp_eq (map (addr_byte resolved_addr) [0..<4]) kV4LinkLocalPrefix
              (length kV4LinkLocalPrefix)
         then True else False)
      else if sa_family resolved_addr = AF_INET6 then
        (let first32bits = load32 e (addr_byte resolved_addr 0) (addr_byte resolved_addr 1)
                             (addr_byte resolved_addr 2) (addr_byte resolved_addr 3);
             mask = push_bit 22 (NOT (0 :: 32 word));
             first32bits = first32bits AND htonl e mask
         in if memcmp_eq (store32 e first32bits) kV6LinkLocalPrefix
                 (length kV6LinkLocalPrefix)
            then True else False)
      else False)"

text \<open>The first sixteen bits of an address, most significant first.\<close>

definition first16 :: "ResolvedAddress \<Rightarrow> 16 word" where
  "first16 a = push_bit 8 (ucast (addr_byte a 0)) OR ucast (addr_byte a 1)"

definition top10 :: "ResolvedAddress \<Rightarrow> 10 word" where
  "top10 a = ucast (drop_bit 6 (first16 a))"

definition ipv4 :: "8 word list \<Rightarrow> ResolvedAddress" where
  "ipv4 bs = \<lparr>sa_family = AF_INET, sa_port = 0, sa_addr = bs,
              sin6_flowinfo = 0, sin6_scope_id = 0, sa_size = sizeof_sockaddr_in\<rparr>"

definition ipv6 :: "8 word list \<Rightarrow> ResolvedAddress" where
  "ipv6 bs = \<lparr>sa_family = AF_INET6, sa_port = 0, sa_addr = bs,
              sin6_flowinfo = 0, sin6_scope_id = 0, sa_size = sizeof_sockaddr_in6\<rparr>"


subsection \<open>Options, sockets and the container\<close>

text \<open>
  \<^verbatim>\<open>PosixTcpOptions\<close>, the fields this file reads. The socket mutator and the user-timeout
  policy it also carries are opaque here and answer through the oracles below.
\<close>

record PosixTcpOptions =
  allow_reuse_port :: bool
  expand_wildcard_addrs :: bool
  exclude_link_local_addresses :: bool
  dscp :: int

text \<open>\<^verbatim>\<open>PosixSocketWrapper::DSMode\<close>, declared in \<^verbatim>\<open>tcp_socket_utils.h\<close>.\<close>

datatype DSMode = DSMODE_NONE | DSMODE_IPV6 | DSMODE_IPV4 | DSMODE_DUALSTACK

text \<open>\<^verbatim>\<open>ListenerSocketsContainer::ListenerSocket\<close>; \<open>sock\<close> is the descriptor of the wrapper.\<close>

record ListenerSocket =
  sock :: int
  port :: int
  zero_copy_enabled :: bool
  addr :: ResolvedAddress
  dsmode :: DSMode

text \<open>
  Modelled from the spec: \<^verbatim>\<open>ListenerSocketsContainer\<close> is an abstract class whose
  implementation is not in the file. It is an ordered, append-only collection with a
  lookup that tests whether an address is already present, by content equality.
\<close>

type_synonym ListenerSocketsContainer = "ListenerSocket list"

definition Append :: "ListenerSocketsContainer \<Rightarrow> ListenerSocket \<Rightarrow> ListenerSocketsContainer" where
  "Append c s = c @ [s]"

definition Find :: "ListenerSocketsContainer \<Rightarrow> ResolvedAddress \<Rightarrow> ListenerSocket StatusOr" where
  "Find c a =
     (case find (\<lambda>s. addr s = a) c of
        Some s \<Rightarrow> Inr s
      | None \<Rightarrow> Inl (Error kNotFound ''Socket not found!''))"

subsection \<open>The operating system\<close>

text \<open>
  What the process has done to the system so far: the descriptors it holds open and the
  calls it has made, oldest first.
\<close>

datatype event =
    EvSocket ResolvedAddress
  | EvBind int ResolvedAddress
  | EvListen int int
  | EvClose int

record world =
  open_fds :: "int set"
  trace :: "event list"

datatype sockopt =
    ReusePort int
  | ZeroCopy
  | NonBlocking int
  | Cloexec int
  | LowLatency int
  | ReuseAddr int
  | Dscp int
  | NoSigpipeIfPossible

text \<open>One entry of the list \<^verbatim>\<open>getifaddrs\<close> returns; \<open>None\<close> is a null pointer.\<close>

record ifaddrs =
  ifa_name :: "string option"
  ifa_flags :: nat
  ifa_addr :: "ResolvedAddress option"

text \<open>
  The answers of the system and of the socket wrapper. A system call answers with its
  return value and the text of \<^verbatim>\<open>strerror(errno)\<close>; a wrapper method answers with a status.
  The two compile-time switches, the byte order of the host, the result of the one-time
  probe for IPv4 and the cached value of \<^verbatim>\<open>GetMaxAcceptQueueSize()\<close> are part of the record.
\<close>

record os =
  GRPC_HAVE_IFADDRS :: bool
  GRPC_LINUX_ERRQUEUE :: bool
  host_endianness :: endianness
  IsSocketReusePortSupported :: bool
  is_ipv4_available :: bool
  GetMaxAcceptQueueSize :: int
  socket_oracle :: "world \<Rightarrow> ResolvedAddress \<Rightarrow> int StatusOr \<times> DSMode"
  sockopt_oracle :: "world \<Rightarrow> int \<Rightarrow> sockopt \<Rightarrow> Status"
  mutator_oracle :: "world \<Rightarrow> int \<Rightarrow> PosixTcpOptions \<Rightarrow> Status"
  bind_oracle :: "world \<Rightarrow> int \<Rightarrow> ResolvedAddress \<Rightarrow> int \<times> string"
  listen_oracle :: "world \<Rightarrow> int \<Rightarrow> int \<Rightarrow> int \<times> string"
  getsockname_oracle :: "world \<Rightarrow> int \<Rightarrow> int \<times> string \<times> ResolvedAddress"
  getifaddrs_oracle :: "world \<Rightarrow> int \<times> ifaddrs list \<times> string"
  ResolvedAddressToString :: "ResolvedAddress \<Rightarrow> string StatusOr"
  StrReplaceAll_nul :: "string \<Rightarrow> string"

definition record_event :: "world \<Rightarrow> event \<Rightarrow> world" where
  "record_event w ev = w\<lparr>trace := trace w @ [ev]\<rparr>"

text \<open>
  \<^verbatim>\<open>PosixSocketWrapper::CreateDualStackSocket(nullptr, addr, SOCK_STREAM, 0, dsmode)\<close>: the
  attempt is recorded, and a descriptor it returns is open.
\<close>

definition CreateDualStackSocket ::
    "os \<Rightarrow> world \<Rightarrow> ResolvedAddress \<Rightarrow> (int StatusOr \<times> DSMode) \<times> world" where
  "CreateDualStackSocket os w a =
     (case socket_oracle os w a of
        (Inl e, mode) \<Rightarrow> ((Inl e, mode), record_event w (EvSocket a))
      | (Inr fd, mode) \<Rightarrow>
          ((Inr fd, mode), (record_event w (EvSocket a))\<lparr>open_fds := insert fd (open_fds w)\<rparr>))"

definition sys_bind :: "os \<Rightarrow> world \<Rightarrow> int \<Rightarrow> ResolvedAddress \<Rightarrow> (int \<times> string) \<times> world" where
  "sys_bind os w fd a = (bind_oracle os w fd a, record_event w (EvBind fd a))"

definition sys_listen :: "os \<Rightarrow> world \<Rightarrow> int \<Rightarrow> int \<Rightarrow> (int \<times> string) \<times> world" where
  "sys_listen os w fd backlog = (listen_oracle os w fd backlog, record_event w (EvListen fd backlog))"

definition sys_close :: "world \<Rightarrow> int \<Rightarrow> world" where
  "sys_close w fd = (record_event w (EvClose fd))\<lparr>open_fds := open_fds w - {fd}\<rparr>"

abbreviation SetSocketReusePort :: "os \<Rightarrow> world \<Rightarrow> int \<Rightarrow> int \<Rightarrow> Status" where
  "SetSocketReusePort os w fd v \<equiv> sockopt_oracle os w fd (ReusePort v)"

abbreviation SetSocketZeroCopy :: "os \<Rightarrow> world \<Rightarrow> int \<Rightarrow> Status" where
  "SetSocketZeroCopy os w fd \<equiv> sockopt_oracle os w fd ZeroCopy"

abbreviation SetSocketNonBlocking :: "os \<Rightarrow> world \<Rightarrow> int \<Rightarrow> int \<Rightarrow> Status" where
  "SetSocketNonBlocking os w fd v \<equiv> sockopt_oracle os w fd (NonBlocking v)"

abbreviation SetSocketCloexec :: "os \<Rightarrow> world \<Rightarrow> int \<Rightarrow> int \<Rightarrow> Status" where
  "SetSocketCloexec os w fd v \<equiv> sockopt_oracle os w fd (Cloexec v)"

abbreviation SetSocketLowLatency :: "os \<Rightarrow> world \<Rightarrow> int \<Rightarrow> int \<Rightarrow> Status" where
  "SetSocketLowLatency os w fd v \<equiv> sockopt_oracle os w fd (LowLatency v)"

abbreviation SetSocketReuseAddr :: "os \<Rightarrow> world \<Rightarrow> int \<Rightarrow> int \<Rightarrow> Status" where
  "SetSocketReuseAddr os w fd v \<equiv> sockopt_oracle os w fd (ReuseAddr v)"

abbreviation SetSocketDscp :: "os \<Rightarrow> world \<Rightarrow> int \<Rightarrow> int \<Rightarrow> Status" where
  "SetSocketDscp os w fd v \<equiv> sockopt_oracle os w fd (Dscp v)"

abbreviation SetSocketNoSigpipeIfPossible :: "os \<Rightarrow> world \<Rightarrow> int \<Rightarrow> Status" where
  "SetSocketNoSigpipeIfPossible os w fd \<equiv> sockopt_oracle os w fd NoSigpipeIfPossible"

abbreviation ApplySocketMutatorInOptions ::
    "os \<Rightarrow> world \<Rightarrow> int \<Rightarrow> PosixTcpOptions \<Rightarrow> Status" where
  "ApplySocketMutatorInOptions os w fd options \<equiv> mutator_oracle os w fd options"

subsection \<open>Preparing one socket\<close>

text \<open>
  The address is an IP address: the test
  \<^verbatim>\<open>sa_family != AF_UNIX && !ResolvedAddressIsVSock(socket.addr)\<close>.
\<close>

definition is_ip_transport :: "ResolvedAddress \<Rightarrow> bool" where
  "is_ip_transport a = (sa_family a \<noteq> AF_UNIX \<and> \<not> ResolvedAddressIsVSock a)"

text \<open>
  The body of \<^verbatim>\<open>PrepareSocket\<close> after \<^verbatim>\<open>CHECK_GE(fd, 0)\<close>. Each
  \<^verbatim>\<open>GRPC_RETURN_IF_ERROR\<close> is a \<open>case\<close> on the status. The result is the status, the socket,
  the world, and the value of \<^verbatim>\<open>close_fd\<close> at the return: it is false only after the last
  step. \<^verbatim>\<open>TrySetSocketTcpUserTimeout\<close> returns nothing and is left out.
\<close>

definition PrepareSocket_body ::
    "os \<Rightarrow> PosixTcpOptions \<Rightarrow> ListenerSocket \<Rightarrow> world \<Rightarrow>
     Status \<times> ListenerSocket \<times> world \<times> bool" where
  "PrepareSocket_body os options socket0 w =
     (let fd = sock socket0;
          socket1 = socket0\<lparr>zero_copy_enabled := False, port := 0\<rparr>;
          ip = is_ip_transport (addr socket1)
      in
      case (if IsSocketReusePortSupported os \<and> allow_reuse_port options \<and> ip
            then SetSocketReusePort os w fd 1 else None) of
        Some e \<Rightarrow> (Some e, socket1, w, True)
      | None \<Rightarrow>
      let socket2 =
            (if GRPC_LINUX_ERRQUEUE os then
               (if SetSocketZeroCopy os w fd \<noteq> None then socket1
                else socket1\<lparr>zero_copy_enabled := True\<rparr>)
             else socket1)
      in
      case SetSocketNonBlocking os w fd 1 of
        Some e \<Rightarrow> (Some e, socket2, w, True)
      | None \<Rightarrow>
      case SetSocketCloexec os w fd 1 of
        Some e \<Rightarrow> (Some e, socket2, w, True)
      | None \<Rightarrow>
      case (if ip then SetSocketLowLatency os w fd 1 else None) of
        Some e \<Rightarrow> (Some e, socket2, w, True)
      | None \<Rightarrow>
      case (if ip then SetSocketReuseAddr os w fd 1 else None) of
        Some e \<Rightarrow> (Some e, socket2, w, True)
      | None \<Rightarrow>
      case (if ip then SetSocketDscp os w fd (dscp options) else None) of
        Some e \<Rightarrow> (Some e, socket2, w, True)
      | None \<Rightarrow>
      case SetSocketNoSigpipeIfPossible os w fd of
        Some e \<Rightarrow> (Some e, socket2, w, True)
      | None \<Rightarrow>
      case ApplySocketMutatorInOptions os w fd options of
        Some e \<Rightarrow> (Some e, socket2, w, True)
      | None \<Rightarrow>
      case sys_bind os w fd (addr socket2) of ((rc_bind, err_bind), w1) \<Rightarrow>
      if rc_bind < 0 then
        (let sockaddr_str =
               (case ResolvedAddressToString os (addr socket2) of
                  Inl e \<Rightarrow> ''<unparsable>''
                | Inr str \<Rightarrow> str);
             sockaddr_str = StrReplaceAll_nul os sockaddr_str
         in (Some (FailedPreconditionError
                    (''Error in bind for address '' @ [CHR 0x27] @ sockaddr_str @
                     [CHR 0x27] @ '': '' @ err_bind)),
             socket2, w1, True))
      else
      case sys_listen os w1 fd (GetMaxAcceptQueueSize os) of ((rc_listen, err_listen), w2) \<Rightarrow>
      if rc_listen < 0 then
        (Some (FailedPreconditionError (''Error in listen: '' @ err_listen)), socket2, w2, True)
      else
      case getsockname_oracle os w2 fd of (rc_name, err_name, sockname_temp) \<Rightarrow>
      if rc_name < 0 then
        (Some (FailedPreconditionError (''Error in getsockname: '' @ err_name)),
         socket2, w2, True)
      else
        (None, socket2\<lparr>port := ResolvedAddressGetPort sockname_temp\<rparr>, w2, False))"

text \<open>
  \<^verbatim>\<open>PrepareSocket\<close>: the check of the descriptor, the body, and the cleanup that runs at
  every return, \<^verbatim>\<open>if (close_fd && fd >= 0) close(fd)\<close>.
\<close>

definition PrepareSocket ::
    "os \<Rightarrow> PosixTcpOptions \<Rightarrow> ListenerSocket \<Rightarrow> world \<Rightarrow>
     (Status \<times> ListenerSocket \<times> world) outcome" where
  "PrepareSocket os options socket0 w =
     (let fd = sock socket0 in
      if \<not> 0 \<le> fd then Crashed
      else
        case PrepareSocket_body os options socket0 w of
          (status, socket1, w1, close_fd) \<Rightarrow>
            Returned (status, socket1, if close_fd \<and> 0 \<le> fd then sys_close w1 fd else w1))"

subsection \<open>Binding one address\<close>

definition CreateAndPrepareListenerSocket ::
    "os \<Rightarrow> PosixTcpOptions \<Rightarrow> ResolvedAddress \<Rightarrow> world \<Rightarrow>
     (ListenerSocket StatusOr \<times> world) outcome" where
  "CreateAndPrepareListenerSocket os options a w =
     (case CreateDualStackSocket os w a of
        ((Inl e, mode), w1) \<Rightarrow> Returned (Inl e, w1)
      | ((Inr fd, mode), w1) \<Rightarrow>
          (let socket0 =
                 \<lparr>sock = fd, port = 0, zero_copy_enabled = False,
                  addr = (case (if mode = DSMODE_IPV4 then ResolvedAddressIsV4Mapped a
                                else None) of
                            Some addr4_copy \<Rightarrow> addr4_copy
                          | None \<Rightarrow> a),
                  dsmode = mode\<rparr>
           in case PrepareSocket os options socket0 w1 of
                Crashed \<Rightarrow> Crashed
              | Returned (Some e, socket1, w2) \<Rightarrow> Returned (Inl e, w2)
              | Returned (None, socket1, w2) \<Rightarrow>
                  if 0 < port socket1 then Returned (Inr socket1, w2) else Crashed))"

subsection \<open>Picking an unused port\<close>

definition GetUnusedPort :: "os \<Rightarrow> world \<Rightarrow> int StatusOr \<times> world" where
  "GetUnusedPort os w =
     (let wild = ResolvedAddressMakeWild6 0 in
      case CreateDualStackSocket os w wild of
        ((Inl e, mode), w1) \<Rightarrow> (Inl e, w1)
      | ((Inr fd, mode), w1) \<Rightarrow>
          (let wild = (if mode = DSMODE_IPV4 then ResolvedAddressMakeWild4 0 else wild) in
           case sys_bind os w1 fd wild of ((rc_bind, err_bind), w2) \<Rightarrow>
           if rc_bind \<noteq> 0 then
             (Inl (FailedPreconditionError (''bind(GetUnusedPort): '' @ err_bind)),
              sys_close w2 fd)
           else
           case getsockname_oracle os w2 fd of (rc_name, err_name, wild) \<Rightarrow>
           if rc_name \<noteq> 0 then
             (Inl (FailedPreconditionError (''getsockname(GetUnusedPort): '' @ err_name)),
              sys_close w2 fd)
           else
             (let w3 = sys_close w2 fd;
                  p = ResolvedAddressGetPort wild
              in if p \<le> 0 then (Inl (FailedPreconditionError ''Bad port''), w3)
                 else (Inr p, w3))))"

definition SystemHasIfAddrs :: "os \<Rightarrow> bool" where
  "SystemHasIfAddrs os = GRPC_HAVE_IFADDRS os"

subsection \<open>Binding every local address\<close>

text \<open>The local variables of \<^verbatim>\<open>ListenerContainerAddAllLocalAddresses\<close> that the loop changes.\<close>

record enum_state =
  op_status :: Status
  no_local_addresses :: bool
  assigned_port :: int
  listener_sockets :: ListenerSocketsContainer
  sys :: world

text \<open>
  The address the loop works on for one entry: \<^verbatim>\<open>ResolvedAddress(ifa_addr, len)\<close> with the
  port set, or \<open>None\<close> where the loop continues before building it (a null address, an
  IPv4 address when IPv4 is not available, another family).
\<close>

definition interface_address :: "os \<Rightarrow> int \<Rightarrow> ifaddrs \<Rightarrow> ResolvedAddress option" where
  "interface_address os requested_port ifa_it =
     (case ifa_addr ifa_it of
        None \<Rightarrow> None
      | Some sa \<Rightarrow>
          if sa_family sa = AF_INET then
            (if \<not> is_ipv4_available os then None
             else Some (ResolvedAddressSetPort (sa\<lparr>sa_size := sizeof_sockaddr_in\<rparr>)
                          requested_port))
          else if sa_family sa = AF_INET6 then
            Some (ResolvedAddressSetPort (sa\<lparr>sa_size := sizeof_sockaddr_in6\<rparr>) requested_port)
          else None)"

text \<open>
  The \<^verbatim>\<open>for\<close> loop over the interface list. \<^verbatim>\<open>continue\<close> goes on with the rest of the list
  and \<^verbatim>\<open>break\<close> returns the state. \<^verbatim>\<open>*ResolvedAddressToString(addr)\<close> ends the process when
  the conversion failed.
\<close>

fun add_all_loop ::
    "os \<Rightarrow> PosixTcpOptions \<Rightarrow> int \<Rightarrow> ifaddrs list \<Rightarrow> enum_state \<Rightarrow> enum_state outcome" where
  "add_all_loop os options requested_port [] st = Returned st"
| "add_all_loop os options requested_port (ifa_it # rest) st =
     (case interface_address os requested_port ifa_it of
        None \<Rightarrow> add_all_loop os options requested_port rest st
      | Some a \<Rightarrow>
          if exclude_link_local_addresses options \<and> IsSockAddrLinkLocal (host_endianness os) a
          then add_all_loop os options requested_port rest st
          else
            (case ResolvedAddressToString os a of
               Inl e \<Rightarrow> Crashed
             | Inr addr_str \<Rightarrow>
                 if ok (Find (listener_sockets st) a)
                 then add_all_loop os options requested_port rest st
                 else
                   (case CreateAndPrepareListenerSocket os options a (sys st) of
                      Crashed \<Rightarrow> Crashed
                    | Returned (Inl e, w1) \<Rightarrow>
                        Returned (st\<lparr>op_status :=
                                       Some (FailedPreconditionError
                                              (''Failed to add listener: '' @ addr_str @
                                               '' due to error: '' @ message e)),
                                     sys := w1\<rparr>)
                    | Returned (Inr s, w1) \<Rightarrow>
                        add_all_loop os options requested_port rest
                          (st\<lparr>listener_sockets := Append (listener_sockets st) s,
                              assigned_port := port s,
                              no_local_addresses := False,
                              sys := w1\<rparr>))))"

definition ListenerContainerAddAllLocalAddresses ::
    "os \<Rightarrow> ListenerSocketsContainer \<Rightarrow> PosixTcpOptions \<Rightarrow> int \<Rightarrow> world \<Rightarrow>
     (int StatusOr \<times> ListenerSocketsContainer \<times> world) outcome" where
  "ListenerContainerAddAllLocalAddresses os container options requested_port w =
     (if \<not> GRPC_HAVE_IFADDRS os then Crashed
      else
        case (if requested_port = 0 then GetUnusedPort os w else (Inr requested_port, w)) of
          (Inl e, w1) \<Rightarrow> Returned (Inl e, container, w1)
        | (Inr requested_port, w1) \<Rightarrow>
            (case getifaddrs_oracle os w1 of (rc, ifa, err) \<Rightarrow>
             if rc \<noteq> 0 \<or> ifa = [] then
               Returned (Inl (FailedPreconditionError (''getifaddrs: '' @ err)), container, w1)
             else
               case add_all_loop os options requested_port ifa
                      \<lparr>op_status = None, no_local_addresses = True, assigned_port = 0,
                       listener_sockets = container, sys = w1\<rparr> of
                 Crashed \<Rightarrow> Crashed
               | Returned st \<Rightarrow>
                   (case op_status st of
                      Some e \<Rightarrow> Returned (Inl e, listener_sockets st, sys st)
                    | None \<Rightarrow>
                        if no_local_addresses st then
                          Returned (Inl (FailedPreconditionError ''No local addresses''),
                                    listener_sockets st, sys st)
                        else Returned (Inr (assigned_port st), listener_sockets st, sys st))))"

subsection \<open>Binding the wildcard addresses\<close>

definition ListenerContainerAddWildcardAddresses ::
    "os \<Rightarrow> ListenerSocketsContainer \<Rightarrow> PosixTcpOptions \<Rightarrow> int \<Rightarrow> world \<Rightarrow>
     (int StatusOr \<times> ListenerSocketsContainer \<times> world) outcome" where
  "ListenerContainerAddWildcardAddresses os container options requested_port w =
     (let wild4 = ResolvedAddressMakeWild4 requested_port;
          wild6 = ResolvedAddressMakeWild6 requested_port
      in
      if SystemHasIfAddrs os \<and> expand_wildcard_addrs options then
        ListenerContainerAddAllLocalAddresses os container options requested_port w
      else
        case CreateAndPrepareListenerSocket os options wild6 w of
          Crashed \<Rightarrow> Crashed
        | Returned (v6_sock, w1) \<Rightarrow>
            (let container1 = (case v6_sock of Inr s \<Rightarrow> Append container s | Inl e \<Rightarrow> container);
                 requested_port1 = (case v6_sock of Inr s \<Rightarrow> port s | Inl e \<Rightarrow> requested_port);
                 assigned_port1 = (case v6_sock of Inr s \<Rightarrow> port s | Inl e \<Rightarrow> 0)
             in
             if (case v6_sock of
                   Inr s \<Rightarrow> dsmode s = DSMODE_DUALSTACK \<or> dsmode s = DSMODE_IPV4
                 | Inl e \<Rightarrow> False)
             then Returned (Inr assigned_port1, container1, w1)
             else
               (let wild4 = ResolvedAddressSetPort wild4 requested_port1 in
                case CreateAndPrepareListenerSocket os options wild4 w1 of
                  Crashed \<Rightarrow> Crashed
                | Returned (v4_sock, w2) \<Rightarrow>
                    (let assigned_port2 =
                           (case v4_sock of Inr s \<Rightarrow> port s | Inl e \<Rightarrow> assigned_port1);
                         container2 =
                           (case v4_sock of Inr s \<Rightarrow> Append container1 s | Inl e \<Rightarrow> container1)
                     in
                     if 0 < assigned_port2 then Returned (Inr assigned_port2, container2, w2)
                     else
                       (case (v6_sock, v4_sock) of
                          (Inl e6, Inl e4) \<Rightarrow>
                            Returned
                              (Inl (FailedPreconditionError
                                     (''Failed to add any wildcard listeners: '' @
                                      message e6 @ message e4)),
                               container2, w2)
                        | _ \<Rightarrow> Crashed)))))"

subsection \<open>Reading the trace\<close>

text \<open>The addresses for which a socket was requested, oldest first.\<close>

definition socket_attempts :: "world \<Rightarrow> ResolvedAddress list" where
  "socket_attempts w =
     concat (map (\<lambda>ev. case ev of EvSocket a \<Rightarrow> [a] | _ \<Rightarrow> []) (trace w))"

text \<open>
  The address a descriptor is bound to: that of its latest \<^verbatim>\<open>bind\<close>, unless the descriptor
  was closed since. The events are read latest first.
\<close>

fun bound_in :: "event list \<Rightarrow> int \<Rightarrow> ResolvedAddress option" where
  "bound_in [] fd = None"
| "bound_in (EvBind f a # evs) fd = (if f = fd then Some a else bound_in evs fd)"
| "bound_in (EvClose f # evs) fd = (if f = fd then None else bound_in evs fd)"
| "bound_in (EvSocket a # evs) fd = bound_in evs fd"
| "bound_in (EvListen f n # evs) fd = bound_in evs fd"

definition bound_to :: "world \<Rightarrow> int \<Rightarrow> ResolvedAddress option" where
  "bound_to w fd = bound_in (rev (trace w)) fd"

text \<open>
  What POSIX promises of the two calls whose answers the program trusts: a descriptor is
  not negative, and \<^verbatim>\<open>getsockname\<close> on a bound socket reports the port it was bound to, or
  the port the kernel chose (never 0) when it was bound to port 0.
\<close>

definition posix_sockets :: "os \<Rightarrow> bool" where
  "posix_sockets os =
     ((\<forall>w a fd mode. socket_oracle os w a = (Inr fd, mode) \<longrightarrow> 0 \<le> fd) \<and>
      (\<forall>w fd a rc err name.
          getsockname_oracle os w fd = (rc, err, name) \<and> 0 \<le> rc \<and> bound_to w fd = Some a \<longrightarrow>
          (ResolvedAddressGetPort a = 0 \<longrightarrow> 0 < ResolvedAddressGetPort name) \<and>
          (ResolvedAddressGetPort a \<noteq> 0 \<longrightarrow>
             ResolvedAddressGetPort name = ResolvedAddressGetPort a)))"

text \<open>
  The loop passes over an entry without binding it: \<^verbatim>\<open>continue\<close> by family or missing
  address, by the link-local filter, or because the container already holds the address.
\<close>

definition skipped ::
    "os \<Rightarrow> PosixTcpOptions \<Rightarrow> int \<Rightarrow> ListenerSocketsContainer \<Rightarrow> ifaddrs \<Rightarrow> bool" where
  "skipped os options requested_port c ifa_it =
     (case interface_address os requested_port ifa_it of
        None \<Rightarrow> True
      | Some a \<Rightarrow>
          (exclude_link_local_addresses options \<and> IsSockAddrLinkLocal (host_endianness os) a) \<or>
          (ok (ResolvedAddressToString os a) \<and> ok (Find c a)))"

text \<open>The state in which the loop of \<^verbatim>\<open>ListenerContainerAddAllLocalAddresses\<close> starts.\<close>

definition initial_state :: "ListenerSocketsContainer \<Rightarrow> world \<Rightarrow> enum_state" where
  "initial_state c w =
     \<lparr>op_status = None, no_local_addresses = True, assigned_port = 0,
      listener_sockets = c, sys = w\<rparr>"

text \<open>
  The address \<^verbatim>\<open>CreateAndPrepareListenerSocket\<close> stores in the socket: the plain IPv4 form
  when the socket came out IPv4-only and the address was IPv4-mapped, else the address.
\<close>

definition stored_address :: "DSMode \<Rightarrow> ResolvedAddress \<Rightarrow> ResolvedAddress" where
  "stored_address mode a =
     (case (if mode = DSMODE_IPV4 then ResolvedAddressIsV4Mapped a else None) of
        Some addr4_copy \<Rightarrow> addr4_copy
      | None \<Rightarrow> a)"

subsection \<open>A concrete system\<close>

text \<open>
  A system to run the program on: every option can be set except, possibly, no-sigpipe;
  \<^verbatim>\<open>bind\<close> fails with \<^verbatim>\<open>EADDRINUSE\<close> on the addresses \<open>bind_fails\<close> selects; an IPv6
  socket comes out in mode \<open>mode6\<close>; descriptors are numbered by the length of the trace;
  \<^verbatim>\<open>getsockname\<close> reports the bound address, with a port of the kernel's choice for port 0.
\<close>

definition demo_to_string :: "ResolvedAddress \<Rightarrow> string" where
  "demo_to_string a =
     (if sa_family a = AF_INET6 then ''ipv6'' else ''ipv4'') @ '':'' @
     map (\<lambda>b. ''0123456789'' ! (unat b mod 10)) (sa_addr a)"

definition demo_os ::
    "ifaddrs list \<Rightarrow> (ResolvedAddress \<Rightarrow> bool) \<Rightarrow> DSMode \<Rightarrow> Status \<Rightarrow> os" where
  "demo_os interfaces bind_fails mode6 nosigpipe =
     \<lparr>GRPC_HAVE_IFADDRS = True,
      GRPC_LINUX_ERRQUEUE = True,
      host_endianness = LittleEndian,
      IsSocketReusePortSupported = True,
      is_ipv4_available = True,
      GetMaxAcceptQueueSize = 4096,
      socket_oracle =
        (\<lambda>w a. (Inr (3 + int (length (trace w))),
                 if sa_family a = AF_INET6 then mode6 else DSMODE_NONE)),
      sockopt_oracle = (\<lambda>w fd opt. if opt = NoSigpipeIfPossible then nosigpipe else None),
      mutator_oracle = (\<lambda>w fd options. None),
      bind_oracle =
        (\<lambda>w fd a. if bind_fails a then (- 1, ''Address already in use'') else (0, [])),
      listen_oracle = (\<lambda>w fd backlog. (0, [])),
      getsockname_oracle =
        (\<lambda>w fd. (0, [],
                  case bound_to w fd of
                    Some a \<Rightarrow> if sa_port a = 0 then a\<lparr>sa_port := 40000 + \<bar>fd\<bar>\<rparr> else a
                  | None \<Rightarrow> ResolvedAddressMakeWild4 0)),
      getifaddrs_oracle = (\<lambda>w. (0, interfaces, [])),
      ResolvedAddressToString = (\<lambda>a. Inr (demo_to_string a)),
      StrReplaceAll_nul = (\<lambda>str. str)\<rparr>"

definition demo_options :: PosixTcpOptions where
  "demo_options =
     \<lparr>allow_reuse_port = True, expand_wildcard_addrs = False,
      exclude_link_local_addresses = True, dscp = 0\<rparr>"

definition demo_world :: world where
  "demo_world = \<lparr>open_fds = {}, trace = []\<rparr>"

definition interface :: "string \<Rightarrow> ResolvedAddress \<Rightarrow> ifaddrs" where
  "interface name a = \<lparr>ifa_name = Some name, ifa_flags = 0, ifa_addr = Some a\<rparr>"

definition demo_address :: "8 word list \<Rightarrow> int \<Rightarrow> ResolvedAddress" where
  "demo_address bs p = ResolvedAddressSetPort (ipv4 bs) p"

definition demo_socket :: "int \<Rightarrow> ResolvedAddress \<Rightarrow> ListenerSocket" where
  "demo_socket fd a =
     \<lparr>sock = fd, port = 0, zero_copy_enabled = False, addr = a, dsmode = DSMODE_NONE\<rparr>"

text \<open>
  The option steps of \<^verbatim>\<open>PrepareSocket\<close> that come before the no-sigpipe step and can
  return, all succeeding.
\<close>

definition options_before_nosigpipe_ok ::
    "os \<Rightarrow> PosixTcpOptions \<Rightarrow> ListenerSocket \<Rightarrow> world \<Rightarrow> bool" where
  "options_before_nosigpipe_ok os options s w =
     ((if IsSocketReusePortSupported os \<and> allow_reuse_port options \<and> is_ip_transport (addr s)
       then SetSocketReusePort os w (sock s) 1 else None) = None \<and>
      SetSocketNonBlocking os w (sock s) 1 = None \<and>
      SetSocketCloexec os w (sock s) 1 = None \<and>
      (if is_ip_transport (addr s) then SetSocketLowLatency os w (sock s) 1 else None) = None \<and>
      (if is_ip_transport (addr s) then SetSocketReuseAddr os w (sock s) 1 else None) = None \<and>
      (if is_ip_transport (addr s) then SetSocketDscp os w (sock s) (dscp options) else None)
        = None)"

text \<open>
  The statuses of the option steps of \<^verbatim>\<open>PrepareSocket\<close> that are wrapped in
  \<^verbatim>\<open>GRPC_RETURN_IF_ERROR\<close>, in the order of lines 146 to 173; a step that its guard leaves
  out counts as OK.
\<close>

definition fatal_option_steps ::
    "os \<Rightarrow> PosixTcpOptions \<Rightarrow> ListenerSocket \<Rightarrow> world \<Rightarrow> Status list" where
  "fatal_option_steps os options s w =
     [if IsSocketReusePortSupported os \<and> allow_reuse_port options \<and> is_ip_transport (addr s)
      then SetSocketReusePort os w (sock s) 1 else None,
      SetSocketNonBlocking os w (sock s) 1,
      SetSocketCloexec os w (sock s) 1,
      if is_ip_transport (addr s) then SetSocketLowLatency os w (sock s) 1 else None,
      if is_ip_transport (addr s) then SetSocketReuseAddr os w (sock s) 1 else None,
      if is_ip_transport (addr s) then SetSocketDscp os w (sock s) (dscp options) else None,
      SetSocketNoSigpipeIfPossible os w (sock s),
      ApplySocketMutatorInOptions os w (sock s) options]"

text \<open>
  The status of lines 175 to 204, reached when every option step succeeded: the error of
  \<^verbatim>\<open>bind\<close>, of \<^verbatim>\<open>listen\<close> or of \<^verbatim>\<open>getsockname\<close>, whichever fails first, else OK.
\<close>

definition status_after_options ::
    "os \<Rightarrow> ListenerSocket \<Rightarrow> world \<Rightarrow> Status" where
  "status_after_options os s w =
     (let fd = sock s;
          w1 = record_event w (EvBind fd (addr s));
          w2 = record_event w1 (EvListen fd (GetMaxAcceptQueueSize os))
      in
      if fst (bind_oracle os w fd (addr s)) < 0 then
        Some (FailedPreconditionError
               (''Error in bind for address '' @ [CHR 0x27] @
                StrReplaceAll_nul os
                  (case ResolvedAddressToString os (addr s) of
                     Inl e \<Rightarrow> ''<unparsable>''
                   | Inr str \<Rightarrow> str) @
                [CHR 0x27] @ '': '' @ snd (bind_oracle os w fd (addr s))))
      else if fst (listen_oracle os w1 fd (GetMaxAcceptQueueSize os)) < 0 then
        Some (FailedPreconditionError
               (''Error in listen: '' @ snd (listen_oracle os w1 fd (GetMaxAcceptQueueSize os))))
      else if fst (getsockname_oracle os w2 fd) < 0 then
        Some (FailedPreconditionError
               (''Error in getsockname: '' @ fst (snd (getsockname_oracle os w2 fd))))
      else None)"

text \<open>No address the system reports for an interface is an IPv4-mapped IPv6 address.\<close>

definition no_v4mapped_interfaces :: "os \<Rightarrow> bool" where
  "no_v4mapped_interfaces os =
     (\<forall>w rc ifa err x sa.
        getifaddrs_oracle os w = (rc, ifa, err) \<and> x \<in> set ifa \<and> ifa_addr x = Some sa \<longrightarrow>
        ResolvedAddressIsV4Mapped sa = None)"

definition demo_interfaces :: "ifaddrs list" where
  "demo_interfaces =
     [interface ''eth0'' (ipv4 [10, 0, 0, 1]),
      interface ''eth1'' (ipv4 [10, 0, 0, 2]),
      interface ''eth2'' (ipv4 [10, 0, 0, 3])]"

definition bonded_interfaces :: "ifaddrs list" where
  "bonded_interfaces =
     [interface ''bond0'' (ipv4 [10, 0, 0, 1]),
      interface ''eth0'' (ipv4 [10, 0, 0, 1]),
      interface ''eth1'' (ipv4 [10, 0, 0, 2])]"

definition unusable_interfaces :: "ifaddrs list" where
  "unusable_interfaces =
     [interface ''eth0'' (ipv4 [169, 254, 1, 1]),
      \<lparr>ifa_name = Some ''tun0'', ifa_flags = 0, ifa_addr = None\<rparr>,
      interface ''lo'' ((ipv4 [])\<lparr>sa_family := AF_UNIX\<rparr>),
      interface ''eth1'' (ipv6 [0xfe, 0x80, 0, 0, 0, 0, 0, 0, 0, 0, 0, 0, 0, 0, 0, 1])]"

section \<open>Properties\<close>

subsection \<open>Bytes and bits\<close>

lemma all_less_8:
  "(\<forall>n<8. P n) = (P (0::nat) \<and> P 1 \<and> P 2 \<and> P 3 \<and> P 4 \<and> P 5 \<and> P 6 \<and> P 7)"
proof -
  have "{..<8::nat} = {0, 1, 2, 3, 4, 5, 6, 7}" by auto
  then show ?thesis by (metis (no_types) lessThan_iff insert_iff empty_iff)
qed

lemma all_less_10:
  "(\<forall>n<10. P n) =
   (P (0::nat) \<and> P 1 \<and> P 2 \<and> P 3 \<and> P 4 \<and> P 5 \<and> P 6 \<and> P 7 \<and> P 8 \<and> P 9)"
proof -
  have "{..<10::nat} = {0, 1, 2, 3, 4, 5, 6, 7, 8, 9}" by auto
  then show ?thesis by (metis (no_types) lessThan_iff insert_iff empty_iff)
qed

lemma byte_eq_iff: "(a = b) = (\<forall>n<8. bit a n = bit b n)" for a b :: "8 word"
  by (auto simp: bit_eq_iff)

lemma word10_eq_iff: "(a = b) = (\<forall>n<10. bit a n = bit b n)" for a b :: "10 word"
  by (auto simp: bit_eq_iff)

lemma byte_high_bit: "8 \<le> n \<Longrightarrow> bit b n = False" for b :: "8 word"
  by (auto dest: bit_imp_le_length)

lemma byte_is_fe:
  "(b = 0xFE) =
   (\<not> bit b 0 \<and> bit b 1 \<and> bit b 2 \<and> bit b 3 \<and> bit b 4 \<and> bit b 5 \<and> bit b 6 \<and> bit b 7)"
  for b :: "8 word"
  by (subst byte_eq_iff) (simp add: all_less_8)

lemma byte_masked_is_80: "(b AND 0xC0 = 0x80) = (\<not> bit b 6 \<and> bit b 7)" for b :: "8 word"
  by (subst byte_eq_iff) (simp add: all_less_8 bit_simps)

lemma top_bits_fe80:
  "((ucast (drop_bit 6 (push_bit 8 (ucast b0) OR ucast b1 :: 16 word)) :: 10 word) = 0x3FA) =
   (b0 = 0xFE \<and> b1 AND 0xC0 = 0x80)"
  for b0 b1 :: "8 word"
  apply (simp only: byte_is_fe byte_masked_is_80)
  apply (subst word10_eq_iff)
  apply (simp add: all_less_10 bit_simps byte_high_bit)
  apply blast
  done

lemma mask_22_value: "push_bit 22 (NOT (0 :: 32 word)) = 0xFFC00000"
  by (simp add: push_bit_eq_mult)

lemma htonl_mask_little: "htonl LittleEndian (0xFFC00000 :: 32 word) = 0xC0FF"
  by (simp add: htonl_def load32_def)

lemma mask_little_shape: "(0xC0FF :: 32 word) = mask 8 OR push_bit 14 (mask 2)"
  by (simp add: mask_eq_exp_minus_1)

lemma mask_big_shape: "(0xFFC00000 :: 32 word) = push_bit 22 (mask 10)"
  by (simp add: mask_eq_exp_minus_1)

lemma masked_prefix_little:
  "take 2 (store32 LittleEndian
     (load32 LittleEndian b0 b1 b2 b3 AND (mask 8 OR push_bit 14 (mask 2)))) =
   [b0, b1 AND push_bit 6 (mask 2)]"
  apply (simp add: store32_def load32_def)
  apply (rule conjI; rule bit_word_eqI)
   apply (auto simp: bit_simps dest: bit_imp_le_length)
  done

lemma masked_prefix_big:
  "take 2 (store32 BigEndian (load32 BigEndian b0 b1 b2 b3 AND push_bit 22 (mask 10))) =
   [b0, b1 AND push_bit 6 (mask 2)]"
  apply (simp add: store32_def load32_def)
  apply (rule conjI; rule bit_word_eqI)
   apply (auto simp: bit_simps dest: bit_imp_le_length)
  done

lemma c0_shape: "(push_bit 6 (mask 2) :: 8 word) = 0xC0"
  by (simp add: mask_eq_exp_minus_1)

lemma masked_prefix:
  "take 2 (store32 e (load32 e b0 b1 b2 b3 AND htonl e (push_bit 22 (NOT 0)))) =
   [b0, b1 AND 0xC0]"
proof (cases e)
  case LittleEndian
  have "htonl LittleEndian (push_bit 22 (NOT (0 :: 32 word))) = mask 8 OR push_bit 14 (mask 2)"
    by (simp only: mask_22_value htonl_mask_little mask_little_shape)
  with LittleEndian show ?thesis
    by (simp only: masked_prefix_little c0_shape)
next
  case BigEndian
  have "htonl BigEndian (push_bit 22 (NOT (0 :: 32 word))) = push_bit 22 (mask 10)"
    by (simp only: mask_22_value mask_big_shape) (simp add: htonl_def)
  with BigEndian show ?thesis
    by (simp only: masked_prefix_big c0_shape)
qed

lemma IsSockAddrLinkLocal_bytes:
  "IsSockAddrLinkLocal e a =
     (if sa_family a = AF_INET then addr_byte a 0 = 0xa9 \<and> addr_byte a 1 = 0xfe
      else if sa_family a = AF_INET6 then
        addr_byte a 0 = 0xfe \<and> addr_byte a 1 AND 0xC0 = 0x80
      else False)"
proof -
  have v4: "memcmp_eq (map (addr_byte a) [0..<4]) kV4LinkLocalPrefix (length kV4LinkLocalPrefix)
              = (addr_byte a 0 = 0xa9 \<and> addr_byte a 1 = 0xfe)"
    by (simp add: memcmp_eq_def kV4LinkLocalPrefix_def upt_rec eval_nat_numeral)
  have len6: "length kV6LinkLocalPrefix = 2"
    by (simp add: kV6LinkLocalPrefix_def)
  have v6: "memcmp_eq (store32 e (load32 e b0 b1 b2 b3 AND htonl e (push_bit 22 (NOT 0))))
              kV6LinkLocalPrefix (length kV6LinkLocalPrefix)
            = (b0 = 0xfe \<and> b1 AND 0xC0 = 0x80)" for b0 b1 b2 b3
    unfolding memcmp_eq_def len6 masked_prefix
    by (simp add: kV6LinkLocalPrefix_def)
  show ?thesis
    unfolding IsSockAddrLinkLocal_def Let_def v4 v6 by simp
qed

text \<open>
  C9. \<^verbatim>\<open>IsSockAddrLinkLocal\<close> is true for an IPv4 address iff its first two bytes are
  169.254, true for an IPv6 address iff the top ten bits of the address are those of
  \<^verbatim>\<open>fe80::/10\<close>, and false for every other family, on a host of either byte order; it is
  true for 169.254.1.1 and fe80::1 and false for 10.0.0.1 and 2001:db8::1.
\<close>

theorem IsSockAddrLinkLocal_correct:
  "IsSockAddrLinkLocal e a =
     (if sa_family a = AF_INET then addr_byte a 0 = 169 \<and> addr_byte a 1 = 254
      else if sa_family a = AF_INET6 then top10 a = 0x3FA
      else False)
   \<and> IsSockAddrLinkLocal e (ipv4 [169, 254, 1, 1])
   \<and> IsSockAddrLinkLocal e (ipv6 [0xfe, 0x80, 0, 0, 0, 0, 0, 0, 0, 0, 0, 0, 0, 0, 0, 1])
   \<and> \<not> IsSockAddrLinkLocal e (ipv4 [10, 0, 0, 1])
   \<and> \<not> IsSockAddrLinkLocal e
         (ipv6 [0x20, 0x01, 0x0d, 0xb8, 0, 0, 0, 0, 0, 0, 0, 0, 0, 0, 0, 1])"
proof -
  have general: "IsSockAddrLinkLocal e a =
     (if sa_family a = AF_INET then addr_byte a 0 = 169 \<and> addr_byte a 1 = 254
      else if sa_family a = AF_INET6 then top10 a = 0x3FA
      else False)"
    unfolding IsSockAddrLinkLocal_bytes top10_def first16_def top_bits_fe80 by simp
  have ex1: "IsSockAddrLinkLocal e (ipv4 [169, 254, 1, 1])"
    by (simp add: IsSockAddrLinkLocal_bytes ipv4_def addr_byte_def)
  have ex2: "IsSockAddrLinkLocal e (ipv6 [0xfe, 0x80, 0, 0, 0, 0, 0, 0, 0, 0, 0, 0, 0, 0, 0, 1])"
    by (simp add: IsSockAddrLinkLocal_bytes ipv6_def addr_byte_def)
  have ex3: "\<not> IsSockAddrLinkLocal e (ipv4 [10, 0, 0, 1])"
    by (simp add: IsSockAddrLinkLocal_bytes ipv4_def addr_byte_def)
  have ex4: "\<not> IsSockAddrLinkLocal e
         (ipv6 [0x20, 0x01, 0x0d, 0xb8, 0, 0, 0, 0, 0, 0, 0, 0, 0, 0, 0, 1])"
    by (simp add: IsSockAddrLinkLocal_bytes ipv6_def addr_byte_def)
  from general ex1 ex2 ex3 ex4 show ?thesis by blast
qed


theorem IsSockAddrLinkLocal_correct_witness:
  "IsSockAddrLinkLocal LittleEndian (ipv4 [169, 254, 1, 1]) \<and>
   IsSockAddrLinkLocal BigEndian
     (ipv6 [0xfe, 0x80, 0, 0, 0, 0, 0, 0, 0, 0, 0, 0, 0, 0, 0, 1]) \<and>
   \<not> IsSockAddrLinkLocal LittleEndian (ipv4 [10, 0, 0, 1])"
  using IsSockAddrLinkLocal_correct [of LittleEndian "ipv4 [10, 0, 0, 1]"]
        IsSockAddrLinkLocal_correct [of BigEndian "ipv4 [10, 0, 0, 1]"]
  by blast

subsection \<open>Preparing one socket\<close>

lemma PrepareSocket_body_inv:
  "(case PrepareSocket_body os options s w of
      (st, s', w', c) \<Rightarrow>
        c = (st \<noteq> None) \<and> open_fds w' = open_fds w \<and>
        sock s' = sock s \<and> addr s' = addr s \<and> dsmode s' = dsmode s)"
  unfolding PrepareSocket_body_def Let_def sys_bind_def sys_listen_def record_event_def
  by (simp split: option.split prod.split)

lemma PrepareSocket_body_close_fd:
  "PrepareSocket_body os options s w = (st, s', w', c) \<Longrightarrow> c = (st \<noteq> None)"
  using PrepareSocket_body_inv [where os=os and options=options and s=s and w=w] by simp

lemma PrepareSocket_body_open_fds:
  "PrepareSocket_body os options s w = (st, s', w', c) \<Longrightarrow> open_fds w' = open_fds w"
  using PrepareSocket_body_inv [where os=os and options=options and s=s and w=w] by simp

lemma PrepareSocket_body_fields:
  "PrepareSocket_body os options s w = (st, s', w', c) \<Longrightarrow>
     sock s' = sock s \<and> addr s' = addr s \<and> dsmode s' = dsmode s"
  using PrepareSocket_body_inv [where os=os and options=options and s=s and w=w] by simp

lemma socket_attempts_record_event:
  "socket_attempts (record_event w ev) =
     socket_attempts w @ (case ev of EvSocket a \<Rightarrow> [a] | _ \<Rightarrow> [])"
  by (simp add: socket_attempts_def record_event_def)

lemma socket_attempts_open_fds [simp]:
  "socket_attempts (w\<lparr>open_fds := X\<rparr>) = socket_attempts w"
  by (simp add: socket_attempts_def)

lemma PrepareSocket_body_attempts:
  "(case PrepareSocket_body os options s w of
      (st, s', w', c) \<Rightarrow> socket_attempts w' = socket_attempts w)"
  unfolding PrepareSocket_body_def Let_def sys_bind_def sys_listen_def
  by (simp add: socket_attempts_record_event split: option.split prod.split)

lemma PrepareSocket_attempts:
  "PrepareSocket os options s w = Returned (st, s', w') \<Longrightarrow>
     socket_attempts w' = socket_attempts w"
  using PrepareSocket_body_attempts [where os=os and options=options and s=s and w=w]
  by (auto simp: PrepareSocket_def Let_def sys_close_def socket_attempts_record_event
           split: if_splits prod.splits)

lemma PrepareSocket_body_success:
  "(case PrepareSocket_body os options s w of
      (st, s', w', c) \<Rightarrow>
        st = None \<longrightarrow>
          bound_to w' (sock s) = Some (addr s) \<and>
          (case getsockname_oracle os w' (sock s) of
             (rc, err, name) \<Rightarrow> 0 \<le> rc \<and> port s' = ResolvedAddressGetPort name))"
  unfolding PrepareSocket_body_def Let_def sys_bind_def sys_listen_def record_event_def
  by (simp add: bound_to_def split: option.split prod.split)

lemma PrepareSocket_fields:
  "PrepareSocket os options s w = Returned (st, s', w') \<Longrightarrow>
     sock s' = sock s \<and> addr s' = addr s \<and> dsmode s' = dsmode s"
  using PrepareSocket_body_inv [where os=os and options=options and s=s and w=w]
  by (auto simp: PrepareSocket_def Let_def split: if_splits prod.splits)

lemma PrepareSocket_success:
  assumes "PrepareSocket os options s w = Returned (None, s', w')"
  shows "bound_to w' (sock s) = Some (addr s) \<and>
         (case getsockname_oracle os w' (sock s) of
            (rc, err, name) \<Rightarrow> 0 \<le> rc \<and> port s' = ResolvedAddressGetPort name)"
proof -
  obtain st s1 w1 c where body: "PrepareSocket_body os options s w = (st, s1, w1, c)"
    by (metis prod_cases4)
  from assms body have "st = None" "s1 = s'" 
    by (auto simp: PrepareSocket_def Let_def split: if_splits)
  moreover have "c = (st \<noteq> None)" by (rule PrepareSocket_body_close_fd [OF body])
  ultimately have "w' = w1" using assms body
    by (auto simp: PrepareSocket_def Let_def split: if_splits)
  with PrepareSocket_body_success [where os=os and options=options and s=s and w=w] body
    \<open>st = None\<close> \<open>s1 = s'\<close>
  show ?thesis by simp
qed

lemma find_first_error:
  "find (\<lambda>x. x \<noteq> None) [a1, a2, a3, a4, a5, a6, a7, a8 :: Status] =
     (case a1 of Some e \<Rightarrow> Some a1 | None \<Rightarrow>
      case a2 of Some e \<Rightarrow> Some a2 | None \<Rightarrow>
      case a3 of Some e \<Rightarrow> Some a3 | None \<Rightarrow>
      case a4 of Some e \<Rightarrow> Some a4 | None \<Rightarrow>
      case a5 of Some e \<Rightarrow> Some a5 | None \<Rightarrow>
      case a6 of Some e \<Rightarrow> Some a6 | None \<Rightarrow>
      case a7 of Some e \<Rightarrow> Some a7 | None \<Rightarrow>
      case a8 of Some e \<Rightarrow> Some a8 | None \<Rightarrow> None)"
  by (cases a1; simp; cases a2; simp; cases a3; simp; cases a4; simp; cases a5; simp;
      cases a6; simp; cases a7; simp; cases a8; simp)

lemma PrepareSocket_body_status:
  "(case PrepareSocket_body os options s w of
      (st, s', w', c) \<Rightarrow>
        st = (case find (\<lambda>x. x \<noteq> None) (fatal_option_steps os options s w) of
                Some x \<Rightarrow> x
              | None \<Rightarrow> status_after_options os s w))"
  unfolding fatal_option_steps_def find_first_error PrepareSocket_body_def Let_def
  apply (simp split: option.split split del: if_split)
  apply (simp add: status_after_options_def sys_bind_def sys_listen_def Let_def
              split: prod.split)
  done

lemma PrepareSocket_body_trace:
  "(case PrepareSocket_body os options s w of
      (st, s', w', c) \<Rightarrow>
        st = None \<longrightarrow>
          trace w' = trace w @ [EvBind (sock s) (addr s),
                                EvListen (sock s) (GetMaxAcceptQueueSize os)])"
  unfolding PrepareSocket_body_def Let_def sys_bind_def sys_listen_def record_event_def
  by (simp split: option.split prod.split)


lemma PrepareSocket_status:
  assumes "PrepareSocket os options s w = Returned (st, s', w')"
  shows "st = (case find (\<lambda>x. x \<noteq> None) (fatal_option_steps os options s w) of
                Some x \<Rightarrow> x
              | None \<Rightarrow> status_after_options os s w)"
  using assms PrepareSocket_body_status [where os=os and options=options and s=s and w=w]
  by (auto simp: PrepareSocket_def Let_def split: if_splits prod.splits)

lemma PrepareSocket_success_trace:
  assumes "PrepareSocket os options s w = Returned (None, s', w')"
  shows "trace w' = trace w @ [EvBind (sock s) (addr s),
                               EvListen (sock s) (GetMaxAcceptQueueSize os)]"
proof -
  obtain st s1 w1 c where body: "PrepareSocket_body os options s w = (st, s1, w1, c)"
    by (metis prod_cases4)
  from assms body have "st = None"
    by (auto simp: PrepareSocket_def Let_def split: if_splits)
  moreover have "c = (st \<noteq> None)" by (rule PrepareSocket_body_close_fd [OF body])
  ultimately have "w' = w1" using assms body
    by (auto simp: PrepareSocket_def Let_def split: if_splits)
  with PrepareSocket_body_trace [where os=os and options=options and s=s and w=w] body
    \<open>st = None\<close>
  show ?thesis by simp
qed

lemma V4Mapped_port:
  "ResolvedAddressIsV4Mapped a = Some a4 \<Longrightarrow> ResolvedAddressGetPort a4 = ResolvedAddressGetPort a"
  by (auto simp: ResolvedAddressIsV4Mapped_def ResolvedAddressGetPort_def split: if_splits)

lemma CreateDualStackSocket_cases:
  obtains (fail) e mode where
      "CreateDualStackSocket os w a = ((Inl e, mode), record_event w (EvSocket a))"
      "socket_oracle os w a = (Inl e, mode)"
  | (success) fd mode where
      "CreateDualStackSocket os w a =
         ((Inr fd, mode), (record_event w (EvSocket a))\<lparr>open_fds := insert fd (open_fds w)\<rparr>)"
      "socket_oracle os w a = (Inr fd, mode)"
proof (cases "socket_oracle os w a")
  case (Pair r mode)
  then show ?thesis
    by (cases r) (auto simp: CreateDualStackSocket_def intro: fail success)
qed


lemma PrepareSocket_returns:
  "0 \<le> sock s \<Longrightarrow> \<exists>st s' w'. PrepareSocket os options s w = Returned (st, s', w')"
  by (simp add: PrepareSocket_def Let_def split: prod.split)

lemma CreateAndPrepare_port_positive:
  "CreateAndPrepareListenerSocket os options a w = Returned (Inr s, w') \<Longrightarrow> 0 < port s"
  by (cases rule: CreateDualStackSocket_cases [of os w a])
     (auto simp: CreateAndPrepareListenerSocket_def Let_def
           split: outcome.splits option.splits if_splits)

lemma CreateAndPrepare_addr:
  "CreateAndPrepareListenerSocket os options a w = Returned (Inr s, w') \<Longrightarrow>
     addr s = stored_address (dsmode s) a"
  by (cases rule: CreateDualStackSocket_cases [of os w a])
     (auto simp: CreateAndPrepareListenerSocket_def Let_def stored_address_def
           dest!: PrepareSocket_fields
           split: outcome.splits option.splits if_splits)

lemma CreateAndPrepare_attempts:
  "CreateAndPrepareListenerSocket os options a w = Returned (r, w') \<Longrightarrow>
     socket_attempts w' = socket_attempts w @ [a]"
  by (cases rule: CreateDualStackSocket_cases [of os w a])
     (auto simp: CreateAndPrepareListenerSocket_def Let_def socket_attempts_record_event
           dest!: PrepareSocket_attempts
           split: outcome.splits option.splits if_splits)

lemma stored_address_port:
  "ResolvedAddressGetPort (stored_address mode a) = ResolvedAddressGetPort a"
  by (auto simp: stored_address_def V4Mapped_port split: option.splits)

lemma CreateAndPrepare_posix:
  assumes posix: "posix_sockets os" and valid: "0 \<le> ResolvedAddressGetPort a"
  shows "(\<exists>e w'. CreateAndPrepareListenerSocket os options a w = Returned (Inl e, w')) \<or>
         (\<exists>s w'. CreateAndPrepareListenerSocket os options a w = Returned (Inr s, w') \<and>
                  0 < port s \<and>
                  (ResolvedAddressGetPort a \<noteq> 0 \<longrightarrow> port s = ResolvedAddressGetPort a))"
proof (cases rule: CreateDualStackSocket_cases [of os w a])
  case (fail e mode)
  then show ?thesis by (simp add: CreateAndPrepareListenerSocket_def)
next
  case (success fd mode)
  define s0 where "s0 = \<lparr>sock = fd, port = 0, zero_copy_enabled = False,
                          addr = stored_address mode a, dsmode = mode\<rparr>"
  define w1 where "w1 = (record_event w (EvSocket a))\<lparr>open_fds := insert fd (open_fds w)\<rparr>"
  from posix success(2) have fd: "0 \<le> fd" by (auto simp: posix_sockets_def)
  have unfold: "CreateAndPrepareListenerSocket os options a w =
          (case PrepareSocket os options s0 w1 of
             Crashed \<Rightarrow> Crashed
           | Returned (Some e, socket1, w2) \<Rightarrow> Returned (Inl e, w2)
           | Returned (None, socket1, w2) \<Rightarrow>
               if 0 < port socket1 then Returned (Inr socket1, w2) else Crashed)"
    using success(1)
    by (simp add: CreateAndPrepareListenerSocket_def s0_def w1_def stored_address_def)
  obtain st s1 w2 where prep: "PrepareSocket os options s0 w1 = Returned (st, s1, w2)"
    using PrepareSocket_returns [of s0 os options w1] fd by (auto simp: s0_def)
  show ?thesis
  proof (cases st)
    case (Some e)
    with unfold prep show ?thesis by simp
  next
    case None
    with prep have ok: "PrepareSocket os options s0 w1 = Returned (None, s1, w2)" by simp
    obtain rc err name where name: "getsockname_oracle os w2 fd = (rc, err, name)"
      by (metis prod_cases3)
    from PrepareSocket_success [OF ok] name
    have bound: "bound_to w2 fd = Some (stored_address mode a)"
      and rc: "0 \<le> rc" and p: "port s1 = ResolvedAddressGetPort name"
      by (simp_all add: s0_def)
    from posix name rc bound
    have zero: "ResolvedAddressGetPort a = 0 \<Longrightarrow> 0 < ResolvedAddressGetPort name"
      and same: "ResolvedAddressGetPort a \<noteq> 0 \<Longrightarrow>
                   ResolvedAddressGetPort name = ResolvedAddressGetPort a"
      unfolding posix_sockets_def by (metis stored_address_port)+
    have pos: "0 < port s1"
      using zero same valid p by (cases "ResolvedAddressGetPort a = 0") auto
    show ?thesis
      using unfold ok pos same p by simp
  qed
qed



lemma CreateAndPrepare_success_trace:
  assumes "CreateAndPrepareListenerSocket os options a w = Returned (Inr s, w')"
  shows "trace w' = trace w @ [EvSocket a, EvBind (sock s) (addr s),
                               EvListen (sock s) (GetMaxAcceptQueueSize os)]"
proof (cases rule: CreateDualStackSocket_cases [of os w a])
  case (fail e mode)
  with assms show ?thesis by (simp add: CreateAndPrepareListenerSocket_def)
next
  case (success fd mode)
  define s0 where "s0 = \<lparr>sock = fd, port = 0, zero_copy_enabled = False,
                          addr = stored_address mode a, dsmode = mode\<rparr>"
  define w1 where "w1 = (record_event w (EvSocket a))\<lparr>open_fds := insert fd (open_fds w)\<rparr>"
  from assms success(1) have prep: "PrepareSocket os options s0 w1 = Returned (None, s, w')"
    by (auto simp: CreateAndPrepareListenerSocket_def Let_def s0_def w1_def stored_address_def
             split: outcome.splits option.splits if_splits)
  from PrepareSocket_fields [OF prep] have "sock s = sock s0" "addr s = addr s0" by simp_all
  with PrepareSocket_success_trace [OF prep] show ?thesis
    by (simp add: w1_def record_event_def)
qed

lemma stored_address_wild4:
  "stored_address mode (ResolvedAddressSetPort (ResolvedAddressMakeWild4 p) q) =
     ResolvedAddressSetPort (ResolvedAddressMakeWild4 p) q"
  by (simp add: stored_address_def ResolvedAddressIsV4Mapped_def ResolvedAddressSetPort_def
                ResolvedAddressMakeWild4_def)

lemma stored_address_wild6:
  "stored_address mode (ResolvedAddressMakeWild6 p) = ResolvedAddressMakeWild6 p"
proof -
  have "map (addr_byte (ResolvedAddressMakeWild6 p)) [0..<12] ! 10 = 0"
    by (simp add: addr_byte_def ResolvedAddressMakeWild6_def)
  moreover have "kV4MappedPrefix ! 10 = 0xff"
    by (simp add: kV4MappedPrefix_def)
  moreover have "(0 :: 8 word) \<noteq> 0xff" by simp
  ultimately have "map (addr_byte (ResolvedAddressMakeWild6 p)) [0..<12] \<noteq> kV4MappedPrefix"
    by metis
  then show ?thesis
    by (simp add: stored_address_def ResolvedAddressIsV4Mapped_def)
qed

subsection \<open>The loop over the interfaces\<close>

lemma loop_skip:
  "skipped os options p (listener_sockets st) x \<Longrightarrow>
     add_all_loop os options p (x # rest) st = add_all_loop os options p rest st"
  by (auto simp: skipped_def ok_def split: option.splits sum.splits)

lemma loop_all_skipped:
  "\<forall>x\<in>set xs. skipped os options p (listener_sockets st) x \<Longrightarrow>
     add_all_loop os options p xs st = Returned st"
proof (induction xs)
  case Nil
  then show ?case by simp
next
  case (Cons x xs)
  then have "add_all_loop os options p (x # xs) st = add_all_loop os options p xs st"
    by (intro loop_skip) simp
  with Cons show ?case by simp
qed

text \<open>One step of the loop, by what happens to the entry.\<close>

lemma loop_step_cases:
  obtains (skip) "skipped os options p (listener_sockets st) x"
  | (unparsable) a e where "interface_address os p x = Some a"
      "ResolvedAddressToString os a = Inl e"
      "\<forall>rest. add_all_loop os options p (x # rest) st = Crashed"
  | (crash) a where "interface_address os p x = Some a"
      "CreateAndPrepareListenerSocket os options a (sys st) = Crashed"
      "\<forall>rest. add_all_loop os options p (x # rest) st = Crashed"
  | (failure) a addr_str e w1 where "interface_address os p x = Some a"
      "ResolvedAddressToString os a = Inr addr_str"
      "\<not> ok (Find (listener_sockets st) a)"
      "CreateAndPrepareListenerSocket os options a (sys st) = Returned (Inl e, w1)"
      "\<forall>rest. add_all_loop os options p (x # rest) st =
         Returned (st\<lparr>op_status := Some (FailedPreconditionError
                          (''Failed to add listener: '' @ addr_str @
                           '' due to error: '' @ message e)),
                      sys := w1\<rparr>)"
  | (success) a s w1 where "interface_address os p x = Some a"
      "\<not> ok (Find (listener_sockets st) a)"
      "CreateAndPrepareListenerSocket os options a (sys st) = Returned (Inr s, w1)"
      "\<forall>rest. add_all_loop os options p (x # rest) st =
         add_all_loop os options p rest
           (st\<lparr>listener_sockets := Append (listener_sockets st) s,
               assigned_port := port s, no_local_addresses := False, sys := w1\<rparr>)"
proof (cases "skipped os options p (listener_sockets st) x")
  case True
  then show ?thesis by (rule skip)
next
  case False
  then obtain a where a: "interface_address os p x = Some a"
    and ll: "\<not> (exclude_link_local_addresses options \<and>
                 IsSockAddrLinkLocal (host_endianness os) a)"
    and dup: "\<not> (ok (ResolvedAddressToString os a) \<and> ok (Find (listener_sockets st) a))"
    by (auto simp: skipped_def split: option.splits)
  show ?thesis
  proof (cases "ResolvedAddressToString os a")
    case (Inl e)
    with a ll show ?thesis by (intro unparsable [of a e]) auto
  next
    case (Inr addr_str)
    with dup have nf: "\<not> ok (Find (listener_sockets st) a)" by (simp add: ok_def)
    show ?thesis
    proof (cases "CreateAndPrepareListenerSocket os options a (sys st)")
      case Crashed
      with a ll Inr nf show ?thesis by (intro crash [of a]) auto
    next
      case (Returned rw)
      obtain r w1 where rw: "rw = (r, w1)" by (cases rw)
      show ?thesis
      proof (cases r)
        case (Inl e)
        with a ll Inr nf Returned rw show ?thesis by (intro failure [of a addr_str e w1]) auto
      next
        case (Inr s)
        with a ll \<open>ResolvedAddressToString os a = Inr addr_str\<close> nf Returned rw
        show ?thesis by (intro success [of a s w1]) auto
      qed
    qed
  qed
qed

lemma loop_append:
  "add_all_loop os options p xs st = Returned st1 \<Longrightarrow> op_status st1 = None \<Longrightarrow>
     add_all_loop os options p (xs @ ys) st = add_all_loop os options p ys st1"
proof (induction xs arbitrary: st)
  case Nil
  then show ?case by simp
next
  case (Cons x xs)
  show ?case
  proof (cases rule: loop_step_cases [where os=os and options=options and p=p and st=st and x=x])
    case skip
    then show ?thesis using Cons by (simp add: loop_skip del: add_all_loop.simps)
  next
    case (unparsable a e)
    with Cons.prems show ?thesis by simp
  next
    case (crash a)
    with Cons.prems show ?thesis by simp
  next
    case (failure a addr_str e w1)
    with Cons.prems show ?thesis by auto
  next
    case (success a s w1)
    with Cons show ?thesis by simp
  qed
qed


lemma loop_prefix:
  "add_all_loop os options p xs st = Returned st' \<Longrightarrow>
     prefix (listener_sockets st) (listener_sockets st')"
proof (induction xs arbitrary: st)
  case Nil
  then show ?case by simp
next
  case (Cons x xs)
  show ?case
  proof (cases rule: loop_step_cases [where os=os and options=options and p=p and st=st and x=x])
    case skip
    then show ?thesis using Cons by (simp add: loop_skip del: add_all_loop.simps)
  next
    case (unparsable a e)
    with Cons.prems show ?thesis by simp
  next
    case (crash a)
    with Cons.prems show ?thesis by simp
  next
    case (failure a addr_str e w1)
    with Cons.prems show ?thesis by auto
  next
    case (success a s w1)
    with Cons.prems have "prefix (Append (listener_sockets st) s) (listener_sockets st')"
      using Cons.IH [of "st\<lparr>listener_sockets := Append (listener_sockets st) s,
               assigned_port := port s, no_local_addresses := False, sys := w1\<rparr>"]
      by simp
    then show ?thesis by (auto simp: Append_def dest: append_prefixD)
  qed
qed

lemma not_found_iff: "(\<not> ok (Find c a)) = (a \<notin> addr ` set c)"
proof -
  have "(find (\<lambda>s. addr s = a) c = None) = (a \<notin> addr ` set c)"
    by (auto simp: find_None_iff)
  then show ?thesis
    by (cases "find (\<lambda>s. addr s = a) c") (auto simp: Find_def ok_def)
qed

lemma stored_address_unmapped:
  "ResolvedAddressIsV4Mapped a = None \<Longrightarrow> stored_address mode a = a"
  by (simp add: stored_address_def)

lemma loop_distinct:
  "add_all_loop os options p xs st = Returned st' \<Longrightarrow>
   distinct (map addr (listener_sockets st)) \<Longrightarrow>
   \<forall>x\<in>set xs. \<forall>a. interface_address os p x = Some a \<longrightarrow> ResolvedAddressIsV4Mapped a = None \<Longrightarrow>
     distinct (map addr (listener_sockets st'))"
proof (induction xs arbitrary: st)
  case Nil
  then show ?case by simp
next
  case (Cons x xs)
  show ?case
  proof (cases rule: loop_step_cases [where os=os and options=options and p=p and st=st and x=x])
    case skip
    then show ?thesis using Cons by (simp add: loop_skip del: add_all_loop.simps)
  next
    case (unparsable a e)
    with Cons.prems show ?thesis by simp
  next
    case (crash a)
    with Cons.prems show ?thesis by simp
  next
    case (failure a addr_str e w1)
    with Cons.prems show ?thesis by auto
  next
    case (success a s w1)
    from success(1) Cons.prems(3) have "ResolvedAddressIsV4Mapped a = None" by simp
    with CreateAndPrepare_addr [OF success(3)] have "addr s = a"
      by (simp add: stored_address_unmapped)
    with success(2) Cons.prems(2)
    have "distinct (map addr (Append (listener_sockets st) s))"
      by (simp add: not_found_iff Append_def)
    with success(4) Cons.prems show ?thesis
      using Cons.IH [of "st\<lparr>listener_sockets := Append (listener_sockets st) s,
               assigned_port := port s, no_local_addresses := False, sys := w1\<rparr>"]
      by simp
  qed
qed

lemma AddAllLocal_unfold:
  assumes "GRPC_HAVE_IFADDRS os"
    and "(if p = 0 then GetUnusedPort os w else (Inr p, w)) = (Inr q, w0)"
    and "getifaddrs_oracle os w0 = (0, ifa, err)"
    and "ifa \<noteq> []"
  shows "ListenerContainerAddAllLocalAddresses os c options p w =
     (case add_all_loop os options q ifa (initial_state c w0) of
        Crashed \<Rightarrow> Crashed
      | Returned st \<Rightarrow>
          (case op_status st of
             Some e \<Rightarrow> Returned (Inl e, listener_sockets st, sys st)
           | None \<Rightarrow>
               if no_local_addresses st then
                 Returned (Inl (FailedPreconditionError ''No local addresses''),
                           listener_sockets st, sys st)
               else Returned (Inr (assigned_port st), listener_sockets st, sys st)))"
  using assms by (simp add: ListenerContainerAddAllLocalAddresses_def initial_state_def)

lemma AddAllLocal_container:
  assumes "ListenerContainerAddAllLocalAddresses os c options p w = Returned (r, c', w')"
  shows "c' = c \<or>
         (\<exists>q w0 rc ifa err st.
            getifaddrs_oracle os w0 = (rc, ifa, err) \<and>
            add_all_loop os options q ifa (initial_state c w0) = Returned st \<and>
            c' = listener_sockets st)"
proof -
  obtain pr w0 where pick: "(if p = 0 then GetUnusedPort os w else (Inr p, w)) = (pr, w0)"
    by (metis surj_pair)
  obtain rc ifa err where ifs: "getifaddrs_oracle os w0 = (rc, ifa, err)"
    by (metis prod_cases3)
  show ?thesis
  proof (cases pr)
    case (Inl e)
    with assms pick show ?thesis
      by (auto simp: ListenerContainerAddAllLocalAddresses_def split: if_splits)
  next
    case (Inr q)
    show ?thesis
    proof (cases "add_all_loop os options q ifa (initial_state c w0)")
      case Crashed
      with assms pick ifs Inr show ?thesis
        by (auto simp: ListenerContainerAddAllLocalAddresses_def initial_state_def
                 split: if_splits)
    next
      case (Returned st)
      with assms pick ifs Inr have "c' = c \<or> c' = listener_sockets st"
        by (auto simp: ListenerContainerAddAllLocalAddresses_def initial_state_def
                 split: if_splits option.splits)
      with ifs Returned show ?thesis by blast
    qed
  qed
qed


lemma AddAllLocal_failure_result:
  assumes "GRPC_HAVE_IFADDRS os"
    and "(if p = 0 then GetUnusedPort os w else (Inr p, w)) = (Inr q, w0)"
    and "getifaddrs_oracle os w0 = (0, pre @ x # post, err)"
    and "add_all_loop os options q pre (initial_state c w0) = Returned st1"
    and "op_status st1 = None"
    and "\<not> skipped os options q (listener_sockets st1) x"
    and "interface_address os q x = Some a"
    and "ResolvedAddressToString os a = Inr addr_str"
    and "CreateAndPrepareListenerSocket os options a (sys st1) = Returned (Inl e, w1)"
  shows "ListenerContainerAddAllLocalAddresses os c options p w =
           Returned (Inl (FailedPreconditionError
                           (''Failed to add listener: '' @ addr_str @
                            '' due to error: '' @ message e)),
                     listener_sockets st1, w1)"
proof -
  have step: "add_all_loop os options q (x # post) st1 =
      Returned (st1\<lparr>op_status := Some (FailedPreconditionError
                          (''Failed to add listener: '' @ addr_str @
                           '' due to error: '' @ message e)),
                    sys := w1\<rparr>)"
    using assms(6-9)
    by (cases rule: loop_step_cases [where os=os and options=options and p=q and st=st1 and x=x])
       auto
  have "add_all_loop os options q (pre @ x # post) (initial_state c w0) =
          add_all_loop os options q (x # post) st1"
    by (rule loop_append [OF assms(4,5)])
  with step show ?thesis
    using AddAllLocal_unfold [OF assms(1,2,3), of c options]
    by simp
qed

lemma V4Mapped_resized:
  "ResolvedAddressIsV4Mapped sa = None \<Longrightarrow>
     ResolvedAddressIsV4Mapped (ResolvedAddressSetPort (sa\<lparr>sa_size := n\<rparr>) q) = None"
proof -
  have "addr_byte (sa\<lparr>sa_size := n, sa_port := q\<rparr>) = addr_byte sa"
    by (rule ext) (simp add: addr_byte_def)
  then show "ResolvedAddressIsV4Mapped sa = None \<Longrightarrow>
     ResolvedAddressIsV4Mapped (ResolvedAddressSetPort (sa\<lparr>sa_size := n\<rparr>) q) = None"
    by (simp add: ResolvedAddressIsV4Mapped_def ResolvedAddressSetPort_def split: if_splits)
qed

lemma interface_address_unmapped:
  assumes "\<forall>sa. ifa_addr x = Some sa \<longrightarrow> ResolvedAddressIsV4Mapped sa = None"
    and "interface_address os q x = Some a"
  shows "ResolvedAddressIsV4Mapped a = None"
  using assms
  by (auto simp: interface_address_def V4Mapped_resized split: option.splits if_splits)

subsection \<open>The wildcard fallback\<close>

lemma wildcard_unfold:
  assumes "\<not> (SystemHasIfAddrs os \<and> expand_wildcard_addrs options)"
    and "CreateAndPrepareListenerSocket os options (ResolvedAddressMakeWild6 p) w =
           Returned (v6_sock, w1)"
  shows "ListenerContainerAddWildcardAddresses os c options p w =
     (if (case v6_sock of
            Inr s \<Rightarrow> dsmode s = DSMODE_DUALSTACK \<or> dsmode s = DSMODE_IPV4
          | Inl e \<Rightarrow> False)
      then Returned (Inr (case v6_sock of Inr s \<Rightarrow> port s | Inl e \<Rightarrow> 0),
                     (case v6_sock of Inr s \<Rightarrow> Append c s | Inl e \<Rightarrow> c), w1)
      else
        case CreateAndPrepareListenerSocket os options
               (ResolvedAddressSetPort (ResolvedAddressMakeWild4 p)
                  (case v6_sock of Inr s \<Rightarrow> port s | Inl e \<Rightarrow> p)) w1 of
          Crashed \<Rightarrow> Crashed
        | Returned (v4_sock, w2) \<Rightarrow>
            (let assigned_port2 =
                   (case v4_sock of
                      Inr s \<Rightarrow> port s
                    | Inl e \<Rightarrow> (case v6_sock of Inr s \<Rightarrow> port s | Inl e \<Rightarrow> 0));
                 container2 =
                   (case v4_sock of
                      Inr s \<Rightarrow> Append (case v6_sock of Inr s \<Rightarrow> Append c s | Inl e \<Rightarrow> c) s
                    | Inl e \<Rightarrow> (case v6_sock of Inr s \<Rightarrow> Append c s | Inl e \<Rightarrow> c))
             in
             if 0 < assigned_port2 then Returned (Inr assigned_port2, container2, w2)
             else
               (case (v6_sock, v4_sock) of
                  (Inl e6, Inl e4) \<Rightarrow>
                    Returned
                      (Inl (FailedPreconditionError
                             (''Failed to add any wildcard listeners: '' @
                              message e6 @ message e4)),
                       container2, w2)
                | _ \<Rightarrow> Crashed)))"
proof -
  have f: "(if SystemHasIfAddrs os \<and> expand_wildcard_addrs options then X else Y) = Y"
    for X Y :: "(int StatusOr \<times> ListenerSocketsContainer \<times> world) outcome"
    using assms(1) by auto
  show ?thesis
    unfolding ListenerContainerAddWildcardAddresses_def Let_def f assms(2)
    by (simp add: Let_def)
qed

subsection \<open>Evaluation on the concrete system\<close>

lemmas demo_simps =
  CreateAndPrepareListenerSocket_def CreateDualStackSocket_def demo_os_def demo_world_def
  demo_options_def PrepareSocket_def PrepareSocket_body_def Let_def sys_bind_def
  sys_listen_def sys_close_def record_event_def bound_to_def ResolvedAddressSetPort_def
  ResolvedAddressGetPort_def ipv4_def is_ip_transport_def ResolvedAddressIsVSock_def
  demo_address_def demo_socket_def ResolvedAddressMakeWild4_def ResolvedAddressMakeWild6_def
  sizeof_sockaddr_in_def sizeof_sockaddr_in6_def FailedPreconditionError_def


lemmas loop_simps =
  interface_address_def interface_def skipped_def Find_def ok_def Append_def initial_state_def
  IsSockAddrLinkLocal_bytes addr_byte_def demo_to_string_def ipv6_def
  ListenerContainerAddAllLocalAddresses_def


lemma replicate_4: "replicate 4 x = [x, x, x, x]"
  by (simp add: eval_nat_numeral)

lemma replicate_16: "replicate 16 x = [x, x, x, x, x, x, x, x, x, x, x, x, x, x, x, x]"
  by (simp add: eval_nat_numeral)

lemmas wildcard_simps =
  ListenerContainerAddWildcardAddresses_def SystemHasIfAddrs_def Append_def demo_to_string_def
  replicate_4 replicate_16

subsection \<open>Binding one address\<close>



subsection \<open>The handle on the ways out of \<^verbatim>\<open>PrepareSocket\<close>\<close>

text \<open>
  C5. \<^verbatim>\<open>PrepareSocket\<close> returns the status of the first option step that fails
  (reuse-port, non-blocking, close-on-exec, low latency, address reuse, DSCP, no-sigpipe,
  mutator), else the error of \<^verbatim>\<open>bind\<close>, \<^verbatim>\<open>listen\<close> or \<^verbatim>\<open>getsockname\<close>, else OK. It closes
  the handle before it returns an error, whatever step failed, and leaves the open
  handles as they were exactly when it returns success.
\<close>

theorem PrepareSocket_closes_handle_on_failure:
  assumes "0 \<le> sock s"
  shows "\<exists>st s' w'. PrepareSocket os options s w = Returned (st, s', w') \<and>
           st = (case find (\<lambda>x. x \<noteq> None) (fatal_option_steps os options s w) of
                   Some x \<Rightarrow> x
                 | None \<Rightarrow> status_after_options os s w) \<and>
           open_fds w' = (if st = None then open_fds w else open_fds w - {sock s}) \<and>
           (st \<noteq> None \<longrightarrow> last (trace w') = EvClose (sock s))"
proof -
  obtain st s' w1 c where body: "PrepareSocket_body os options s w = (st, s', w1, c)"
    by (metis prod_cases4)
  have c: "c = (st \<noteq> None)" by (rule PrepareSocket_body_close_fd [OF body])
  have fds: "open_fds w1 = open_fds w" by (rule PrepareSocket_body_open_fds [OF body])
  let ?w' = "if c then sys_close w1 (sock s) else w1"
  have ret: "PrepareSocket os options s w = Returned (st, s', ?w')"
    using assms body by (simp add: PrepareSocket_def Let_def)
  have st: "st = (case find (\<lambda>x. x \<noteq> None) (fatal_option_steps os options s w) of
                   Some x \<Rightarrow> x
                 | None \<Rightarrow> status_after_options os s w)"
    by (rule PrepareSocket_status [OF ret])
  have "open_fds ?w' = (if st = None then open_fds w else open_fds w - {sock s})"
    and "st \<noteq> None \<longrightarrow> last (trace ?w') = EvClose (sock s)"
    using c fds by (simp_all add: sys_close_def record_event_def)
  with ret st show ?thesis by blast
qed

theorem PrepareSocket_closes_handle_on_failure_witness:
  "(\<exists>s' w'.
      PrepareSocket
        ((demo_os [] (\<lambda>a. False) DSMODE_DUALSTACK None)
           \<lparr>sockopt_oracle :=
              (\<lambda>w fd opt. if opt = Cloexec 1 then Some (Error kInternal ''fcntl(FD_CLOEXEC)'')
                           else None)\<rparr>)
        demo_options (demo_socket 3 (demo_address [10, 0, 0, 1] 8080))
        (demo_world\<lparr>open_fds := {3}\<rparr>)
        = Returned (Some (Error kInternal ''fcntl(FD_CLOEXEC)''), s', w') \<and>
      open_fds w' = {} \<and> last (trace w') = EvClose 3) \<and>
   (\<exists>st s' w'.
      PrepareSocket (demo_os [] (\<lambda>a. True) DSMODE_DUALSTACK None) demo_options
        (demo_socket 3 (demo_address [10, 0, 0, 1] 8080)) (demo_world\<lparr>open_fds := {3}\<rparr>)
        = Returned (st, s', w') \<and>
      st \<noteq> None \<and> open_fds w' = {} \<and> last (trace w') = EvClose 3)"
proof -
  let ?cloexec = "(demo_os [] (\<lambda>a. False) DSMODE_DUALSTACK None)
           \<lparr>sockopt_oracle :=
              (\<lambda>w fd opt. if opt = Cloexec 1 then Some (Error kInternal ''fcntl(FD_CLOEXEC)'')
                           else None)\<rparr>"
  let ?busy = "demo_os [] (\<lambda>a. True) DSMODE_DUALSTACK None"
  let ?s = "demo_socket 3 (demo_address [10, 0, 0, 1] 8080)"
  let ?w = "demo_world\<lparr>open_fds := {3}\<rparr>"
  have fd: "0 \<le> sock ?s" "sock ?s = 3" by (simp_all add: demo_socket_def)
  have fds: "open_fds ?w = {3}" by simp
  have first_error:
    "(case find (\<lambda>x. x \<noteq> None) (fatal_option_steps ?cloexec demo_options ?s ?w) of
        Some x \<Rightarrow> x
      | None \<Rightarrow> status_after_options ?cloexec ?s ?w) = Some (Error kInternal ''fcntl(FD_CLOEXEC)'')"
    by (simp add: fatal_option_steps_def demo_os_def)
  have bind_error:
    "(case find (\<lambda>x. x \<noteq> None) (fatal_option_steps ?busy demo_options ?s ?w) of
        Some x \<Rightarrow> x
      | None \<Rightarrow> status_after_options ?busy ?s ?w) \<noteq> None"
    by (simp add: fatal_option_steps_def status_after_options_def demo_os_def)
  from PrepareSocket_closes_handle_on_failure [OF fd(1), of ?cloexec demo_options ?w]
       first_error fd(2) fds
  have a: "\<exists>s' w'. PrepareSocket ?cloexec demo_options ?s ?w
               = Returned (Some (Error kInternal ''fcntl(FD_CLOEXEC)''), s', w') \<and>
             open_fds w' = {} \<and> last (trace w') = EvClose 3"
    by auto
  from PrepareSocket_closes_handle_on_failure [OF fd(1), of ?busy demo_options ?w]
       bind_error fd(2) fds
  have b: "\<exists>st s' w'. PrepareSocket ?busy demo_options ?s ?w = Returned (st, s', w') \<and>
             st \<noteq> None \<and> open_fds w' = {} \<and> last (trace w') = EvClose 3"
    by auto
  from a b show ?thesis by blast
qed


text \<open>
  C6, as stated, fails: on a system where only the no-sigpipe step fails,
  \<^verbatim>\<open>PrepareSocket\<close> returns that very error and closes the handle.
\<close>

theorem PrepareSocket_nosigpipe_not_best_effort:
  "PrepareSocket
     (demo_os [] (\<lambda>a. False) DSMODE_DUALSTACK (Some (Error kInternal ''setsockopt(SO_NOSIGPIPE)'')))
     demo_options (demo_socket 3 (demo_address [10, 0, 0, 1] 8080))
     (demo_world\<lparr>open_fds := {3}\<rparr>)
   = Returned
       (Some (Error kInternal ''setsockopt(SO_NOSIGPIPE)''),
        (demo_socket 3 (demo_address [10, 0, 0, 1] 8080))\<lparr>zero_copy_enabled := True\<rparr>,
        \<lparr>open_fds = {}, trace = [EvClose 3]\<rparr>)"
  by (simp add: demo_simps)

text \<open>
  C6, amended. A failure of \<^verbatim>\<open>SetSocketNoSigpipeIfPossible\<close> is propagated:
  \<^verbatim>\<open>PrepareSocket\<close> then returns an error and closes the handle, and the error is that of
  the no-sigpipe step when the option steps before it succeeded.
\<close>

theorem PrepareSocket_propagates_nosigpipe_failure:
  assumes "0 \<le> sock s"
    and "SetSocketNoSigpipeIfPossible os w (sock s) = Some e"
  shows "\<exists>e' s' w'. PrepareSocket os options s w = Returned (Some e', s', w') \<and>
           sock s \<notin> open_fds w' \<and>
           (options_before_nosigpipe_ok os options s w \<longrightarrow> e' = e)"
proof -
  have body: "(case PrepareSocket_body os options s w of
      (st, s', w', c) \<Rightarrow>
         st \<noteq> None \<and> (options_before_nosigpipe_ok os options s w \<longrightarrow> st = Some e))"
    using assms(2)
    unfolding PrepareSocket_body_def Let_def options_before_nosigpipe_ok_def
    by (simp split: option.split prod.split)
  obtain st s' w1 c where b: "PrepareSocket_body os options s w = (st, s', w1, c)"
    by (metis prod_cases4)
  have c: "c = (st \<noteq> None)" by (rule PrepareSocket_body_close_fd [OF b])
  from body b obtain e' where e': "st = Some e'"
    and same: "options_before_nosigpipe_ok os options s w \<longrightarrow> e' = e"
    by auto
  show ?thesis
    using assms(1) b c e' same
    by (simp add: PrepareSocket_def Let_def sys_close_def record_event_def)
qed

theorem PrepareSocket_propagates_nosigpipe_failure_witness:
  "0 \<le> sock (demo_socket 3 (demo_address [10, 0, 0, 1] 8080)) \<and>
   SetSocketNoSigpipeIfPossible
     (demo_os [] (\<lambda>a. False) DSMODE_DUALSTACK (Some (Error kInternal ''EINVAL'')))
     demo_world (sock (demo_socket 3 (demo_address [10, 0, 0, 1] 8080)))
     = Some (Error kInternal ''EINVAL'') \<and>
   options_before_nosigpipe_ok
     (demo_os [] (\<lambda>a. False) DSMODE_DUALSTACK (Some (Error kInternal ''EINVAL'')))
     demo_options (demo_socket 3 (demo_address [10, 0, 0, 1] 8080)) demo_world \<and>
   (\<exists>s' w'. PrepareSocket
       (demo_os [] (\<lambda>a. False) DSMODE_DUALSTACK (Some (Error kInternal ''EINVAL'')))
       demo_options (demo_socket 3 (demo_address [10, 0, 0, 1] 8080)) demo_world
     = Returned (Some (Error kInternal ''EINVAL''), s', w'))"
proof -
  let ?os = "demo_os [] (\<lambda>a. False) DSMODE_DUALSTACK (Some (Error kInternal ''EINVAL''))"
  let ?s = "demo_socket 3 (demo_address [10, 0, 0, 1] 8080)"
  have fd: "0 \<le> sock ?s" by (simp add: demo_socket_def)
  have ns: "SetSocketNoSigpipeIfPossible ?os demo_world (sock ?s) = Some (Error kInternal ''EINVAL'')"
    by (simp add: demo_os_def)
  have before: "options_before_nosigpipe_ok ?os demo_options ?s demo_world"
    by (simp add: options_before_nosigpipe_ok_def demo_os_def)
  from PrepareSocket_propagates_nosigpipe_failure [OF fd ns, of demo_options] before
  have "\<exists>s' w'. PrepareSocket ?os demo_options ?s demo_world
                  = Returned (Some (Error kInternal ''EINVAL''), s', w')"
    by auto
  with fd ns before show ?thesis by blast
qed


subsection \<open>Binding every local address\<close>

text \<open>
  C4. The first address whose bind fails ends \<^verbatim>\<open>ListenerContainerAddAllLocalAddresses\<close>: it
  returns that failure wrapped with the string form of the address, and the world it
  returns is the one the failed attempt left, with no socket requested for any later
  entry of the list.
\<close>

theorem AddAllLocal_first_failure_aborts:
  assumes "GRPC_HAVE_IFADDRS os"
    and "(if p = 0 then GetUnusedPort os w else (Inr p, w)) = (Inr q, w0)"
    and "getifaddrs_oracle os w0 = (0, pre @ x # post, err)"
    and "add_all_loop os options q pre (initial_state c w0) = Returned st1"
    and "op_status st1 = None"
    and "\<not> skipped os options q (listener_sockets st1) x"
    and "interface_address os q x = Some a"
    and "ResolvedAddressToString os a = Inr addr_str"
    and "CreateAndPrepareListenerSocket os options a (sys st1) = Returned (Inl e, w1)"
  shows "ListenerContainerAddAllLocalAddresses os c options p w =
           Returned (Inl (FailedPreconditionError
                           (''Failed to add listener: '' @ addr_str @
                            '' due to error: '' @ message e)),
                     listener_sockets st1, w1) \<and>
         socket_attempts w1 = socket_attempts (sys st1) @ [a]"
  using AddAllLocal_failure_result [OF assms] CreateAndPrepare_attempts [OF assms(9)]
  by simp

theorem AddAllLocal_first_failure_aborts_witness:
  "ListenerContainerAddAllLocalAddresses
     (demo_os demo_interfaces (\<lambda>a. sa_addr a = [10, 0, 0, 2]) DSMODE_DUALSTACK None)
     [] demo_options 8080 demo_world =
   Returned
     (Inl (FailedPreconditionError
            (''Failed to add listener: ipv4:0002 due to error: Error in bind for address '' @
             [CHR 0x27] @ ''ipv4:0002'' @ [CHR 0x27] @ '': Address already in use'')),
      [\<lparr>sock = 3, port = 8080, zero_copy_enabled = True,
        addr = demo_address [10, 0, 0, 1] 8080, dsmode = DSMODE_NONE\<rparr>],
      \<lparr>open_fds = {3},
       trace = [EvSocket (demo_address [10, 0, 0, 1] 8080),
                EvBind 3 (demo_address [10, 0, 0, 1] 8080),
                EvListen 3 4096,
                EvSocket (demo_address [10, 0, 0, 2] 8080),
                EvBind 6 (demo_address [10, 0, 0, 2] 8080),
                EvClose 6]\<rparr>)"
proof -
  let ?os = "demo_os demo_interfaces (\<lambda>a. sa_addr a = [10, 0, 0, 2]) DSMODE_DUALSTACK None"
  let ?a1 = "demo_address [10, 0, 0, 1] 8080"
  let ?a2 = "demo_address [10, 0, 0, 2] 8080"
  let ?w1 = "\<lparr>open_fds = {3}, trace = [EvSocket ?a1, EvBind 3 ?a1, EvListen 3 4096]\<rparr>"
  let ?st1 = "\<lparr>op_status = None, no_local_addresses = False, assigned_port = 8080,
               listener_sockets = [\<lparr>sock = 3, port = 8080, zero_copy_enabled = True,
                                    addr = ?a1, dsmode = DSMODE_NONE\<rparr>],
               sys = ?w1\<rparr>"
  let ?e = "FailedPreconditionError
              (''Error in bind for address '' @ [CHR 0x27] @ ''ipv4:0002'' @ [CHR 0x27] @
               '': Address already in use'')"
  let ?w2 = "\<lparr>open_fds = {3},
              trace = [EvSocket ?a1, EvBind 3 ?a1, EvListen 3 4096,
                       EvSocket ?a2, EvBind 6 ?a2, EvClose 6]\<rparr>"
  have h1: "GRPC_HAVE_IFADDRS ?os" by (simp add: demo_os_def)
  have h2: "(if (8080::int) = 0 then GetUnusedPort ?os demo_world else (Inr 8080, demo_world))
              = (Inr 8080, demo_world)" by simp
  have h3: "getifaddrs_oracle ?os demo_world =
              (0, [interface ''eth0'' (ipv4 [10, 0, 0, 1])] @
                  interface ''eth1'' (ipv4 [10, 0, 0, 2]) #
                  [interface ''eth2'' (ipv4 [10, 0, 0, 3])], [])"
    by (simp add: demo_os_def demo_interfaces_def)
  have h4: "add_all_loop ?os demo_options 8080 [interface ''eth0'' (ipv4 [10, 0, 0, 1])]
              (initial_state [] demo_world) = Returned ?st1"
    by (simp add: demo_simps loop_simps)
  have h5: "op_status ?st1 = None" by simp
  have h6: "\<not> skipped ?os demo_options 8080 (listener_sockets ?st1)
               (interface ''eth1'' (ipv4 [10, 0, 0, 2]))"
    by (simp add: demo_simps loop_simps)
  have h7: "interface_address ?os 8080 (interface ''eth1'' (ipv4 [10, 0, 0, 2])) = Some ?a2"
    by (simp add: demo_simps loop_simps)
  have h8: "ResolvedAddressToString ?os ?a2 = Inr ''ipv4:0002''"
    by (simp add: demo_simps loop_simps)
  have h9: "CreateAndPrepareListenerSocket ?os demo_options ?a2 (sys ?st1) = Returned (Inl ?e, ?w2)"
    by (simp add: demo_simps loop_simps)
  from AddAllLocal_first_failure_aborts [OF h1 h2 h3 h4 h5 h6 h7 h8 h9]
  show ?thesis by (simp add: FailedPreconditionError_def)
qed



text \<open>
  C10. When a bind fails in the middle of the list, the error return hands back the
  container as the earlier iterations left it: the entries it had at the call, followed
  by every socket appended before the failure.
\<close>

theorem AddAllLocal_failure_keeps_appended:
  assumes "GRPC_HAVE_IFADDRS os"
    and "(if p = 0 then GetUnusedPort os w else (Inr p, w)) = (Inr q, w0)"
    and "getifaddrs_oracle os w0 = (0, pre @ x # post, err)"
    and "add_all_loop os options q pre (initial_state c w0) = Returned st1"
    and "op_status st1 = None"
    and "\<not> skipped os options q (listener_sockets st1) x"
    and "interface_address os q x = Some a"
    and "ResolvedAddressToString os a = Inr addr_str"
    and "CreateAndPrepareListenerSocket os options a (sys st1) = Returned (Inl e, w1)"
  shows "\<exists>appended e' w'.
           listener_sockets st1 = c @ appended \<and>
           ListenerContainerAddAllLocalAddresses os c options p w =
             Returned (Inl e', c @ appended, w')"
proof -
  from loop_prefix [OF assms(4)] obtain appended where "listener_sockets st1 = c @ appended"
    by (auto simp: initial_state_def prefix_def)
  with AddAllLocal_failure_result [OF assms] show ?thesis by auto
qed

theorem AddAllLocal_failure_keeps_appended_witness:
  "\<exists>e' w'.
     ListenerContainerAddAllLocalAddresses
       (demo_os demo_interfaces (\<lambda>a. sa_addr a = [10, 0, 0, 3]) DSMODE_DUALSTACK None)
       [] demo_options 9090 demo_world =
     Returned
       (Inl e',
        [\<lparr>sock = 3, port = 9090, zero_copy_enabled = True,
          addr = demo_address [10, 0, 0, 1] 9090, dsmode = DSMODE_NONE\<rparr>,
         \<lparr>sock = 6, port = 9090, zero_copy_enabled = True,
          addr = demo_address [10, 0, 0, 2] 9090, dsmode = DSMODE_NONE\<rparr>],
        w')"
proof -
  let ?os = "demo_os demo_interfaces (\<lambda>a. sa_addr a = [10, 0, 0, 3]) DSMODE_DUALSTACK None"
  let ?a1 = "demo_address [10, 0, 0, 1] 9090"
  let ?a2 = "demo_address [10, 0, 0, 2] 9090"
  let ?a3 = "demo_address [10, 0, 0, 3] 9090"
  let ?s1 = "\<lparr>sock = 3, port = 9090, zero_copy_enabled = True, addr = ?a1,
              dsmode = DSMODE_NONE\<rparr>"
  let ?s2 = "\<lparr>sock = 6, port = 9090, zero_copy_enabled = True, addr = ?a2,
              dsmode = DSMODE_NONE\<rparr>"
  let ?w1 = "\<lparr>open_fds = {6, 3},
              trace = [EvSocket ?a1, EvBind 3 ?a1, EvListen 3 4096,
                       EvSocket ?a2, EvBind 6 ?a2, EvListen 6 4096]\<rparr>"
  let ?st1 = "\<lparr>op_status = None, no_local_addresses = False, assigned_port = 9090,
               listener_sockets = [?s1, ?s2], sys = ?w1\<rparr>"
  let ?e = "FailedPreconditionError
              (''Error in bind for address '' @ [CHR 0x27] @ ''ipv4:0003'' @ [CHR 0x27] @
               '': Address already in use'')"
  let ?w2 = "\<lparr>open_fds = {6, 3},
              trace = [EvSocket ?a1, EvBind 3 ?a1, EvListen 3 4096,
                       EvSocket ?a2, EvBind 6 ?a2, EvListen 6 4096,
                       EvSocket ?a3, EvBind 9 ?a3, EvClose 9]\<rparr>"
  have h1: "GRPC_HAVE_IFADDRS ?os" by (simp add: demo_os_def)
  have h2: "(if (9090::int) = 0 then GetUnusedPort ?os demo_world else (Inr 9090, demo_world))
              = (Inr 9090, demo_world)" by simp
  have h3: "getifaddrs_oracle ?os demo_world =
              (0, [interface ''eth0'' (ipv4 [10, 0, 0, 1]),
                   interface ''eth1'' (ipv4 [10, 0, 0, 2])] @
                  interface ''eth2'' (ipv4 [10, 0, 0, 3]) # [], [])"
    by (simp add: demo_os_def demo_interfaces_def)
  have h4: "add_all_loop ?os demo_options 9090
              [interface ''eth0'' (ipv4 [10, 0, 0, 1]), interface ''eth1'' (ipv4 [10, 0, 0, 2])]
              (initial_state [] demo_world) = Returned ?st1"
    by (simp add: demo_simps loop_simps)
  have h5: "op_status ?st1 = None" by simp
  have h6: "\<not> skipped ?os demo_options 9090 (listener_sockets ?st1)
               (interface ''eth2'' (ipv4 [10, 0, 0, 3]))"
    by (simp add: demo_simps loop_simps)
  have h7: "interface_address ?os 9090 (interface ''eth2'' (ipv4 [10, 0, 0, 3])) = Some ?a3"
    by (simp add: demo_simps loop_simps)
  have h8: "ResolvedAddressToString ?os ?a3 = Inr ''ipv4:0003''"
    by (simp add: demo_simps loop_simps)
  have h9: "CreateAndPrepareListenerSocket ?os demo_options ?a3 (sys ?st1) = Returned (Inl ?e, ?w2)"
    by (auto simp add: demo_simps loop_simps)
  from AddAllLocal_failure_keeps_appended [OF h1 h2 h3 h4 h5 h6 h7 h8 h9]
  show ?thesis by auto
qed

text \<open>
  C8. When every entry of a non-empty interface list is passed over, by family, by
  IPv4 availability, by the link-local filter or as a duplicate, the operation returns
  the failure \<^verbatim>\<open>No local addresses\<close>, and binds nothing.
\<close>

theorem AddAllLocal_no_local_addresses:
  assumes "GRPC_HAVE_IFADDRS os"
    and "(if p = 0 then GetUnusedPort os w else (Inr p, w)) = (Inr q, w0)"
    and "getifaddrs_oracle os w0 = (0, ifa, err)"
    and "ifa \<noteq> []"
    and "\<forall>x\<in>set ifa. skipped os options q c x"
  shows "ListenerContainerAddAllLocalAddresses os c options p w =
           Returned (Inl (FailedPreconditionError ''No local addresses''), c, w0)"
proof -
  have "add_all_loop os options q ifa (initial_state c w0) = Returned (initial_state c w0)"
    using assms(5) by (intro loop_all_skipped) (simp add: initial_state_def)
  then show ?thesis
    using AddAllLocal_unfold [OF assms(1-4), of c options]
    by (simp add: initial_state_def)
qed

theorem AddAllLocal_no_local_addresses_witness:
  "ListenerContainerAddAllLocalAddresses
     (demo_os unusable_interfaces (\<lambda>a. False) DSMODE_DUALSTACK None)
     [] demo_options 8080 demo_world =
   Returned (Inl (FailedPreconditionError ''No local addresses''), [], demo_world)"
proof -
  let ?os = "demo_os unusable_interfaces (\<lambda>a. False) DSMODE_DUALSTACK None"
  have h1: "GRPC_HAVE_IFADDRS ?os" by (simp add: demo_os_def)
  have h2: "(if (8080::int) = 0 then GetUnusedPort ?os demo_world else (Inr 8080, demo_world))
              = (Inr 8080, demo_world)" by simp
  have h3: "getifaddrs_oracle ?os demo_world = (0, unusable_interfaces, [])"
    by (simp add: demo_os_def)
  have h4: "unusable_interfaces \<noteq> []" by (simp add: unusable_interfaces_def)
  have h5: "\<forall>x\<in>set unusable_interfaces. skipped ?os demo_options 8080 [] x"
    by (simp add: demo_simps loop_simps unusable_interfaces_def)
  from AddAllLocal_no_local_addresses [OF h1 h2 h3 h4 h5]
  show ?thesis .
qed


subsection \<open>Binding the wildcard addresses\<close>

text \<open>
  C2. On the fallback path (no interface enumeration, or no expansion asked for): when the
  IPv6 socket covers IPv4 the operation returns its port; otherwise it returns success,
  with the port of a socket that was bound, as soon as one of the two binds succeeded,
  and it returns an error exactly when both failed, the error
  \<^verbatim>\<open>Failed to add any wildcard listeners: \<close> followed by both messages.
\<close>

theorem wildcard_fallback_best_effort:
  assumes "\<not> (SystemHasIfAddrs os \<and> expand_wildcard_addrs options)"
  shows
    "(CreateAndPrepareListenerSocket os options (ResolvedAddressMakeWild6 p) w =
        Returned (Inr s6, w1) \<and>
      (dsmode s6 = DSMODE_DUALSTACK \<or> dsmode s6 = DSMODE_IPV4) \<longrightarrow>
        ListenerContainerAddWildcardAddresses os c options p w =
          Returned (Inr (port s6), Append c s6, w1) \<and> 0 < port s6) \<and>
     (CreateAndPrepareListenerSocket os options (ResolvedAddressMakeWild6 p) w =
        Returned (v6_sock, w1) \<and>
      \<not> (case v6_sock of
            Inr s \<Rightarrow> dsmode s = DSMODE_DUALSTACK \<or> dsmode s = DSMODE_IPV4
          | Inl e \<Rightarrow> False) \<and>
      CreateAndPrepareListenerSocket os options
        (ResolvedAddressSetPort (ResolvedAddressMakeWild4 p)
           (case v6_sock of Inr s \<Rightarrow> port s | Inl e \<Rightarrow> p)) w1 =
        Returned (v4_sock, w2) \<longrightarrow>
        (\<exists>r c'. ListenerContainerAddWildcardAddresses os c options p w = Returned (r, c', w2) \<and>
           (ok v6_sock \<or> ok v4_sock \<longrightarrow>
              (\<exists>q. r = Inr q \<and> 0 < q \<and>
                   q = (case v4_sock of
                          Inr s \<Rightarrow> port s
                        | Inl e \<Rightarrow> (case v6_sock of Inr s \<Rightarrow> port s | Inl e \<Rightarrow> 0)))) \<and>
           ((\<exists>e. r = Inl e) = (\<not> ok v6_sock \<and> \<not> ok v4_sock)) \<and>
           (\<forall>e6 e4. v6_sock = Inl e6 \<and> v4_sock = Inl e4 \<longrightarrow>
              r = Inl (FailedPreconditionError
                        (''Failed to add any wildcard listeners: '' @
                         message e6 @ message e4)))))"
proof (rule conjI; rule impI)
  assume h: "CreateAndPrepareListenerSocket os options (ResolvedAddressMakeWild6 p) w =
        Returned (Inr s6, w1) \<and>
      (dsmode s6 = DSMODE_DUALSTACK \<or> dsmode s6 = DSMODE_IPV4)"
  then have "0 < port s6" by (auto dest: CreateAndPrepare_port_positive)
  with h wildcard_unfold [OF assms, of p w "Inr s6" w1 c]
  show "ListenerContainerAddWildcardAddresses os c options p w =
          Returned (Inr (port s6), Append c s6, w1) \<and> 0 < port s6"
    by auto
next
  assume h: "CreateAndPrepareListenerSocket os options (ResolvedAddressMakeWild6 p) w =
        Returned (v6_sock, w1) \<and>
      \<not> (case v6_sock of
            Inr s \<Rightarrow> dsmode s = DSMODE_DUALSTACK \<or> dsmode s = DSMODE_IPV4
          | Inl e \<Rightarrow> False) \<and>
      CreateAndPrepareListenerSocket os options
        (ResolvedAddressSetPort (ResolvedAddressMakeWild4 p)
           (case v6_sock of Inr s \<Rightarrow> port s | Inl e \<Rightarrow> p)) w1 =
        Returned (v4_sock, w2)"
  have p6: "\<And>s. v6_sock = Inr s \<Longrightarrow> 0 < port s"
    using h by (auto dest: CreateAndPrepare_port_positive)
  have p4: "\<And>s. v4_sock = Inr s \<Longrightarrow> 0 < port s"
    using h by (auto dest: CreateAndPrepare_port_positive)
  show "\<exists>r c'. ListenerContainerAddWildcardAddresses os c options p w = Returned (r, c', w2) \<and>
           (ok v6_sock \<or> ok v4_sock \<longrightarrow>
              (\<exists>q. r = Inr q \<and> 0 < q \<and>
                   q = (case v4_sock of
                          Inr s \<Rightarrow> port s
                        | Inl e \<Rightarrow> (case v6_sock of Inr s \<Rightarrow> port s | Inl e \<Rightarrow> 0)))) \<and>
           ((\<exists>e. r = Inl e) = (\<not> ok v6_sock \<and> \<not> ok v4_sock)) \<and>
           (\<forall>e6 e4. v6_sock = Inl e6 \<and> v4_sock = Inl e4 \<longrightarrow>
              r = Inl (FailedPreconditionError
                        (''Failed to add any wildcard listeners: '' @
                         message e6 @ message e4)))"
    using h p6 p4 wildcard_unfold [OF assms, of p w v6_sock w1 c]
    by (cases v6_sock; cases v4_sock) (auto simp: ok_def Let_def)
qed


theorem wildcard_fallback_best_effort_witness:
  "ListenerContainerAddWildcardAddresses (demo_os [] (\<lambda>a. False) DSMODE_DUALSTACK None)
     [] demo_options 0 demo_world =
     Returned (Inr 40003,
               [\<lparr>sock = 3, port = 40003, zero_copy_enabled = True,
                 addr = ResolvedAddressMakeWild6 0, dsmode = DSMODE_DUALSTACK\<rparr>],
               \<lparr>open_fds = {3},
                trace = [EvSocket (ResolvedAddressMakeWild6 0),
                         EvBind 3 (ResolvedAddressMakeWild6 0), EvListen 3 4096]\<rparr>) \<and>
   (\<exists>c' w'.
      ListenerContainerAddWildcardAddresses (demo_os [] (\<lambda>a. True) DSMODE_IPV6 None)
        [] demo_options 0 demo_world =
      Returned (Inl (FailedPreconditionError
                      (''Failed to add any wildcard listeners: '' @
                       ''Error in bind for address '' @ [CHR 0x27] @
                       ''ipv6:0000000000000000'' @ [CHR 0x27] @ '': Address already in use'' @
                       ''Error in bind for address '' @ [CHR 0x27] @
                       ''ipv4:0000'' @ [CHR 0x27] @ '': Address already in use'')),
                c', w'))"
proof -
  let ?dual = "demo_os [] (\<lambda>a. False) DSMODE_DUALSTACK None"
  let ?none = "demo_os [] (\<lambda>a. True) DSMODE_IPV6 None"
  let ?w6 = "ResolvedAddressMakeWild6 0"
  let ?w4 = "ResolvedAddressMakeWild4 0"
  let ?s6 = "\<lparr>sock = 3, port = 40003, zero_copy_enabled = True, addr = ?w6,
              dsmode = DSMODE_DUALSTACK\<rparr>"
  let ?w1 = "\<lparr>open_fds = {3}, trace = [EvSocket ?w6, EvBind 3 ?w6, EvListen 3 4096]\<rparr>"
  let ?e6 = "FailedPreconditionError
               (''Error in bind for address '' @ [CHR 0x27] @ ''ipv6:0000000000000000'' @
                [CHR 0x27] @ '': Address already in use'')"
  let ?e4 = "FailedPreconditionError
               (''Error in bind for address '' @ [CHR 0x27] @ ''ipv4:0000'' @
                [CHR 0x27] @ '': Address already in use'')"
  let ?x1 = "\<lparr>open_fds = {}, trace = [EvSocket ?w6, EvBind 3 ?w6, EvClose 3]\<rparr>"
  let ?x2 = "\<lparr>open_fds = {},
              trace = [EvSocket ?w6, EvBind 3 ?w6, EvClose 3,
                       EvSocket ?w4, EvBind 6 ?w4, EvClose 6]\<rparr>"
  have fb1: "\<not> (SystemHasIfAddrs ?dual \<and> expand_wildcard_addrs demo_options)"
    by (simp add: demo_options_def)
  have fb2: "\<not> (SystemHasIfAddrs ?none \<and> expand_wildcard_addrs demo_options)"
    by (simp add: demo_options_def)
  have a: "CreateAndPrepareListenerSocket ?dual demo_options ?w6 demo_world
             = Returned (Inr ?s6, ?w1) \<and>
           (dsmode ?s6 = DSMODE_DUALSTACK \<or> dsmode ?s6 = DSMODE_IPV4)"
    by (simp add: demo_simps wildcard_simps)
  have b: "CreateAndPrepareListenerSocket ?none demo_options ?w6 demo_world
             = Returned (Inl ?e6, ?x1) \<and>
           \<not> (case (Inl ?e6 :: ListenerSocket StatusOr) of
                 Inr s \<Rightarrow> dsmode s = DSMODE_DUALSTACK \<or> dsmode s = DSMODE_IPV4
               | Inl e \<Rightarrow> False) \<and>
           CreateAndPrepareListenerSocket ?none demo_options
             (ResolvedAddressSetPort ?w4
                (case (Inl ?e6 :: ListenerSocket StatusOr) of Inr s \<Rightarrow> port s | Inl e \<Rightarrow> 0))
             ?x1 = Returned (Inl ?e4, ?x2)"
    by (simp add: demo_simps wildcard_simps)
  from wildcard_fallback_best_effort
         [OF fb1, where p=0 and w=demo_world and ?s6.0="?s6" and ?w1.0="?w1" and c="[]"] a
  have first: "ListenerContainerAddWildcardAddresses ?dual [] demo_options 0 demo_world =
                 Returned (Inr (port ?s6), Append [] ?s6, ?w1)"
    by blast
  from wildcard_fallback_best_effort
         [OF fb2, where p=0 and w=demo_world and c="[]" and v6_sock="Inl ?e6" and ?w1.0="?x1"
            and v4_sock="Inl ?e4" and ?w2.0="?x2"] b
  obtain r c' where "ListenerContainerAddWildcardAddresses ?none [] demo_options 0 demo_world
                       = Returned (r, c', ?x2)"
    and "r = Inl (FailedPreconditionError
                   (''Failed to add any wildcard listeners: '' @ message ?e6 @ message ?e4))"
    by blast
  with first show ?thesis
    by (auto simp: Append_def FailedPreconditionError_def)
qed

text \<open>
  C3. On the fallback path \<^verbatim>\<open>CreateAndPrepareListenerSocket\<close> is called for the IPv6 wildcard
  first. If its socket comes out dual-stack or IPv4-only, the operation appends it and
  returns its port, and the world is the one that call left: no other socket is
  requested. Otherwise the operation goes on with one call for the IPv4 wildcard, at the
  port assigned to the IPv6 socket when the IPv6 bind succeeded and at the port first
  asked for when it failed, and its result is that of this call: when it succeeds the
  socket was bound to that very address, is appended after the IPv6 socket and gives the
  port returned (on a system that keeps the promises of POSIX, the port of the IPv6
  socket); when it fails the IPv6 socket's port is returned, or the combined error when
  the IPv6 bind had failed too.
\<close>

theorem wildcard_fallback_order:
  assumes "\<not> (SystemHasIfAddrs os \<and> expand_wildcard_addrs options)"
  shows
    "(CreateAndPrepareListenerSocket os options (ResolvedAddressMakeWild6 p) w = Crashed \<longrightarrow>
        ListenerContainerAddWildcardAddresses os c options p w = Crashed) \<and>
     (CreateAndPrepareListenerSocket os options (ResolvedAddressMakeWild6 p) w =
        Returned (Inr s6, w1) \<and>
      (dsmode s6 = DSMODE_DUALSTACK \<or> dsmode s6 = DSMODE_IPV4) \<longrightarrow>
        ListenerContainerAddWildcardAddresses os c options p w =
          Returned (Inr (port s6), Append c s6, w1) \<and>
        socket_attempts w1 = socket_attempts w @ [ResolvedAddressMakeWild6 p] \<and>
        trace w1 = trace w @ [EvSocket (ResolvedAddressMakeWild6 p),
                              EvBind (sock s6) (ResolvedAddressMakeWild6 p),
                              EvListen (sock s6) (GetMaxAcceptQueueSize os)]) \<and>
     (CreateAndPrepareListenerSocket os options (ResolvedAddressMakeWild6 p) w =
        Returned (Inr s6, w1) \<and>
      \<not> (dsmode s6 = DSMODE_DUALSTACK \<or> dsmode s6 = DSMODE_IPV4) \<longrightarrow>
        (case CreateAndPrepareListenerSocket os options
                (ResolvedAddressSetPort (ResolvedAddressMakeWild4 p) (port s6)) w1 of
           Crashed \<Rightarrow> ListenerContainerAddWildcardAddresses os c options p w = Crashed
         | Returned (Inl e4, w2) \<Rightarrow>
             ListenerContainerAddWildcardAddresses os c options p w =
               Returned (Inr (port s6), Append c s6, w2) \<and>
             socket_attempts w2 =
               socket_attempts w @
               [ResolvedAddressMakeWild6 p,
                ResolvedAddressSetPort (ResolvedAddressMakeWild4 p) (port s6)]
         | Returned (Inr s4, w2) \<Rightarrow>
             ListenerContainerAddWildcardAddresses os c options p w =
               Returned (Inr (port s4), Append (Append c s6) s4, w2) \<and>
             socket_attempts w2 =
               socket_attempts w @
               [ResolvedAddressMakeWild6 p,
                ResolvedAddressSetPort (ResolvedAddressMakeWild4 p) (port s6)] \<and>
             addr s4 = ResolvedAddressSetPort (ResolvedAddressMakeWild4 p) (port s6) \<and>
             trace w2 =
               trace w1 @
               [EvSocket (ResolvedAddressSetPort (ResolvedAddressMakeWild4 p) (port s6)),
                EvBind (sock s4) (ResolvedAddressSetPort (ResolvedAddressMakeWild4 p) (port s6)),
                EvListen (sock s4) (GetMaxAcceptQueueSize os)] \<and>
             (posix_sockets os \<longrightarrow> port s4 = port s6))) \<and>
     (CreateAndPrepareListenerSocket os options (ResolvedAddressMakeWild6 p) w =
        Returned (Inl e6, w1) \<longrightarrow>
        (case CreateAndPrepareListenerSocket os options
                (ResolvedAddressSetPort (ResolvedAddressMakeWild4 p) p) w1 of
           Crashed \<Rightarrow> ListenerContainerAddWildcardAddresses os c options p w = Crashed
         | Returned (Inl e4, w2) \<Rightarrow>
             ListenerContainerAddWildcardAddresses os c options p w =
               Returned (Inl (FailedPreconditionError
                               (''Failed to add any wildcard listeners: '' @
                                message e6 @ message e4)),
                         c, w2) \<and>
             socket_attempts w2 =
               socket_attempts w @
               [ResolvedAddressMakeWild6 p,
                ResolvedAddressSetPort (ResolvedAddressMakeWild4 p) p]
         | Returned (Inr s4, w2) \<Rightarrow>
             ListenerContainerAddWildcardAddresses os c options p w =
               Returned (Inr (port s4), Append c s4, w2) \<and>
             socket_attempts w2 =
               socket_attempts w @
               [ResolvedAddressMakeWild6 p,
                ResolvedAddressSetPort (ResolvedAddressMakeWild4 p) p] \<and>
             addr s4 = ResolvedAddressSetPort (ResolvedAddressMakeWild4 p) p \<and>
             trace w2 =
               trace w1 @
               [EvSocket (ResolvedAddressSetPort (ResolvedAddressMakeWild4 p) p),
                EvBind (sock s4) (ResolvedAddressSetPort (ResolvedAddressMakeWild4 p) p),
                EvListen (sock s4) (GetMaxAcceptQueueSize os)]))"
proof -
  let ?w6 = "ResolvedAddressMakeWild6 p"
  have crash: "CreateAndPrepareListenerSocket os options ?w6 w = Crashed \<longrightarrow>
        ListenerContainerAddWildcardAddresses os c options p w = Crashed"
    using assms by (auto simp: ListenerContainerAddWildcardAddresses_def Let_def)
  have bound4: "addr s4 = a4 \<and>
                trace w2 = trace w1 @ [EvSocket a4, EvBind (sock s4) a4,
                                       EvListen (sock s4) (GetMaxAcceptQueueSize os)]"
    if "CreateAndPrepareListenerSocket os options a4 w1 = Returned (Inr s4, w2)"
      and "a4 = ResolvedAddressSetPort (ResolvedAddressMakeWild4 p) q"
    for s4 w1 w2 a4 q
    using CreateAndPrepare_addr [OF that(1)] CreateAndPrepare_success_trace [OF that(1)]
    by (simp add: that(2) stored_address_wild4)
  have early: "ListenerContainerAddWildcardAddresses os c options p w =
          Returned (Inr (port s6), Append c s6, w1) \<and>
        socket_attempts w1 = socket_attempts w @ [?w6] \<and>
        trace w1 = trace w @ [EvSocket ?w6, EvBind (sock s6) ?w6,
                              EvListen (sock s6) (GetMaxAcceptQueueSize os)]"
    if h: "CreateAndPrepareListenerSocket os options ?w6 w = Returned (Inr s6, w1) \<and>
           (dsmode s6 = DSMODE_DUALSTACK \<or> dsmode s6 = DSMODE_IPV4)"
  proof -
    from h have v6: "CreateAndPrepareListenerSocket os options ?w6 w = Returned (Inr s6, w1)"
      by simp
    have "addr s6 = ?w6"
      using CreateAndPrepare_addr [OF v6] by (simp add: stored_address_wild6)
    with CreateAndPrepare_success_trace [OF v6] CreateAndPrepare_attempts [OF v6]
         h wildcard_unfold [OF assms v6, of c]
    show ?thesis by auto
  qed
  have v6only: "(case CreateAndPrepareListenerSocket os options
                (ResolvedAddressSetPort (ResolvedAddressMakeWild4 p) (port s6)) w1 of
           Crashed \<Rightarrow> ListenerContainerAddWildcardAddresses os c options p w = Crashed
         | Returned (Inl e4, w2) \<Rightarrow>
             ListenerContainerAddWildcardAddresses os c options p w =
               Returned (Inr (port s6), Append c s6, w2) \<and>
             socket_attempts w2 =
               socket_attempts w @
               [?w6, ResolvedAddressSetPort (ResolvedAddressMakeWild4 p) (port s6)]
         | Returned (Inr s4, w2) \<Rightarrow>
             ListenerContainerAddWildcardAddresses os c options p w =
               Returned (Inr (port s4), Append (Append c s6) s4, w2) \<and>
             socket_attempts w2 =
               socket_attempts w @
               [?w6, ResolvedAddressSetPort (ResolvedAddressMakeWild4 p) (port s6)] \<and>
             addr s4 = ResolvedAddressSetPort (ResolvedAddressMakeWild4 p) (port s6) \<and>
             trace w2 =
               trace w1 @
               [EvSocket (ResolvedAddressSetPort (ResolvedAddressMakeWild4 p) (port s6)),
                EvBind (sock s4) (ResolvedAddressSetPort (ResolvedAddressMakeWild4 p) (port s6)),
                EvListen (sock s4) (GetMaxAcceptQueueSize os)] \<and>
             (posix_sockets os \<longrightarrow> port s4 = port s6))"
    if h: "CreateAndPrepareListenerSocket os options ?w6 w = Returned (Inr s6, w1) \<and>
           \<not> (dsmode s6 = DSMODE_DUALSTACK \<or> dsmode s6 = DSMODE_IPV4)"
  proof -
    let ?a4 = "ResolvedAddressSetPort (ResolvedAddressMakeWild4 p) (port s6)"
    from h have v6: "CreateAndPrepareListenerSocket os options ?w6 w = Returned (Inr s6, w1)"
      by simp
    have pos: "0 < port s6" by (rule CreateAndPrepare_port_positive [OF v6])
    note unfold = wildcard_unfold [OF assms v6, of c]
    show ?thesis
    proof (cases "CreateAndPrepareListenerSocket os options ?a4 w1")
      case Crashed
      with h unfold show ?thesis by simp
    next
      case (Returned rw)
      obtain v4 w2 where rw: "rw = (v4, w2)" by (cases rw)
      note v4 = Returned [unfolded rw]
      have attempts: "socket_attempts w2 = socket_attempts w @ [?w6, ?a4]"
        using CreateAndPrepare_attempts [OF v6] CreateAndPrepare_attempts [OF v4] by simp
      show ?thesis
      proof (cases v4)
        case (Inl e4)
        with h unfold v4 pos attempts show ?thesis by (simp add: Let_def)
      next
        case (Inr s4)
        note ok4 = v4 [unfolded Inr]
        have pos4: "0 < port s4" by (rule CreateAndPrepare_port_positive [OF ok4])
        have same: "posix_sockets os \<longrightarrow> port s4 = port s6"
        proof
          assume posix: "posix_sockets os"
          have port4: "ResolvedAddressGetPort ?a4 = port s6"
            by (simp add: ResolvedAddressGetPort_def ResolvedAddressSetPort_def)
          from CreateAndPrepare_posix [OF posix, of ?a4 options w1] pos port4 ok4
          show "port s4 = port s6" by auto
        qed
        from h unfold ok4 pos4 attempts same bound4 [OF ok4 refl] Inr
        show ?thesis by (simp add: Let_def)
      qed
    qed
  qed
  have v6failed: "(case CreateAndPrepareListenerSocket os options
                (ResolvedAddressSetPort (ResolvedAddressMakeWild4 p) p) w1 of
           Crashed \<Rightarrow> ListenerContainerAddWildcardAddresses os c options p w = Crashed
         | Returned (Inl e4, w2) \<Rightarrow>
             ListenerContainerAddWildcardAddresses os c options p w =
               Returned (Inl (FailedPreconditionError
                               (''Failed to add any wildcard listeners: '' @
                                message e6 @ message e4)),
                         c, w2) \<and>
             socket_attempts w2 =
               socket_attempts w @
               [?w6, ResolvedAddressSetPort (ResolvedAddressMakeWild4 p) p]
         | Returned (Inr s4, w2) \<Rightarrow>
             ListenerContainerAddWildcardAddresses os c options p w =
               Returned (Inr (port s4), Append c s4, w2) \<and>
             socket_attempts w2 =
               socket_attempts w @
               [?w6, ResolvedAddressSetPort (ResolvedAddressMakeWild4 p) p] \<and>
             addr s4 = ResolvedAddressSetPort (ResolvedAddressMakeWild4 p) p \<and>
             trace w2 =
               trace w1 @
               [EvSocket (ResolvedAddressSetPort (ResolvedAddressMakeWild4 p) p),
                EvBind (sock s4) (ResolvedAddressSetPort (ResolvedAddressMakeWild4 p) p),
                EvListen (sock s4) (GetMaxAcceptQueueSize os)])"
    if v6: "CreateAndPrepareListenerSocket os options ?w6 w = Returned (Inl e6, w1)"
  proof -
    let ?a4 = "ResolvedAddressSetPort (ResolvedAddressMakeWild4 p) p"
    note unfold = wildcard_unfold [OF assms v6, of c]
    show ?thesis
    proof (cases "CreateAndPrepareListenerSocket os options ?a4 w1")
      case Crashed
      with unfold show ?thesis by simp
    next
      case (Returned rw)
      obtain v4 w2 where rw: "rw = (v4, w2)" by (cases rw)
      note v4 = Returned [unfolded rw]
      have attempts: "socket_attempts w2 = socket_attempts w @ [?w6, ?a4]"
        using CreateAndPrepare_attempts [OF v6] CreateAndPrepare_attempts [OF v4] by simp
      show ?thesis
      proof (cases v4)
        case (Inl e4)
        with unfold v4 attempts show ?thesis by (simp add: Let_def)
      next
        case (Inr s4)
        note ok4 = v4 [unfolded Inr]
        have pos4: "0 < port s4" by (rule CreateAndPrepare_port_positive [OF ok4])
        from unfold ok4 pos4 attempts bound4 [OF ok4 refl] Inr
        show ?thesis by (simp add: Let_def)
      qed
    qed
  qed
  from crash early v6only v6failed show ?thesis by blast
qed


theorem wildcard_fallback_order_witness:
  "ListenerContainerAddWildcardAddresses (demo_os [] (\<lambda>a. False) DSMODE_DUALSTACK None)
     [] demo_options 0 demo_world =
     Returned
       (Inr 40003,
        [\<lparr>sock = 3, port = 40003, zero_copy_enabled = True,
          addr = ResolvedAddressMakeWild6 0, dsmode = DSMODE_DUALSTACK\<rparr>],
        \<lparr>open_fds = {3},
         trace = [EvSocket (ResolvedAddressMakeWild6 0),
                  EvBind 3 (ResolvedAddressMakeWild6 0), EvListen 3 4096]\<rparr>) \<and>
   ListenerContainerAddWildcardAddresses (demo_os [] (\<lambda>a. False) DSMODE_IPV6 None)
     [] demo_options 0 demo_world =
     Returned
       (Inr 40003,
        [\<lparr>sock = 3, port = 40003, zero_copy_enabled = True,
          addr = ResolvedAddressMakeWild6 0, dsmode = DSMODE_IPV6\<rparr>,
         \<lparr>sock = 6, port = 40003, zero_copy_enabled = True,
          addr = ResolvedAddressSetPort (ResolvedAddressMakeWild4 0) 40003,
          dsmode = DSMODE_NONE\<rparr>],
        \<lparr>open_fds = {3, 6},
         trace = [EvSocket (ResolvedAddressMakeWild6 0),
                  EvBind 3 (ResolvedAddressMakeWild6 0), EvListen 3 4096,
                  EvSocket (ResolvedAddressSetPort (ResolvedAddressMakeWild4 0) 40003),
                  EvBind 6 (ResolvedAddressSetPort (ResolvedAddressMakeWild4 0) 40003),
                  EvListen 6 4096]\<rparr>) \<and>
   ListenerContainerAddWildcardAddresses
     (demo_os [] (\<lambda>a. sa_family a = AF_INET6) DSMODE_IPV6 None)
     [] demo_options 8080 demo_world =
     Returned
       (Inr 8080,
        [\<lparr>sock = 6, port = 8080, zero_copy_enabled = True,
          addr = ResolvedAddressSetPort (ResolvedAddressMakeWild4 8080) 8080,
          dsmode = DSMODE_NONE\<rparr>],
        \<lparr>open_fds = {6},
         trace = [EvSocket (ResolvedAddressMakeWild6 8080),
                  EvBind 3 (ResolvedAddressMakeWild6 8080), EvClose 3,
                  EvSocket (ResolvedAddressSetPort (ResolvedAddressMakeWild4 8080) 8080),
                  EvBind 6 (ResolvedAddressSetPort (ResolvedAddressMakeWild4 8080) 8080),
                  EvListen 6 4096]\<rparr>)"
proof -
  let ?dual = "demo_os [] (\<lambda>a. False) DSMODE_DUALSTACK None"
  let ?v6only = "demo_os [] (\<lambda>a. False) DSMODE_IPV6 None"
  let ?v6fails = "demo_os [] (\<lambda>a. sa_family a = AF_INET6) DSMODE_IPV6 None"
  let ?w6 = "ResolvedAddressMakeWild6 0"
  let ?w4 = "ResolvedAddressSetPort (ResolvedAddressMakeWild4 0) 40003"
  let ?s6 = "\<lambda>mode. \<lparr>sock = 3, port = 40003, zero_copy_enabled = True, addr = ?w6,
                     dsmode = mode\<rparr>"
  let ?s4 = "\<lparr>sock = 6, port = 40003, zero_copy_enabled = True, addr = ?w4,
              dsmode = DSMODE_NONE\<rparr>"
  let ?w1 = "\<lparr>open_fds = {3}, trace = [EvSocket ?w6, EvBind 3 ?w6, EvListen 3 4096]\<rparr>"
  let ?w2 = "\<lparr>open_fds = {3, 6},
              trace = [EvSocket ?w6, EvBind 3 ?w6, EvListen 3 4096,
                       EvSocket ?w4, EvBind 6 ?w4, EvListen 6 4096]\<rparr>"
  let ?p6 = "ResolvedAddressMakeWild6 8080"
  let ?p4 = "ResolvedAddressSetPort (ResolvedAddressMakeWild4 8080) 8080"
  let ?e6 = "FailedPreconditionError
               (''Error in bind for address '' @ [CHR 0x27] @ ''ipv6:0000000000000000'' @
                [CHR 0x27] @ '': Address already in use'')"
  let ?x1 = "\<lparr>open_fds = {}, trace = [EvSocket ?p6, EvBind 3 ?p6, EvClose 3]\<rparr>"
  let ?x2 = "\<lparr>open_fds = {6},
              trace = [EvSocket ?p6, EvBind 3 ?p6, EvClose 3,
                       EvSocket ?p4, EvBind 6 ?p4, EvListen 6 4096]\<rparr>"
  let ?t4 = "\<lparr>sock = 6, port = 8080, zero_copy_enabled = True, addr = ?p4,
              dsmode = DSMODE_NONE\<rparr>"
  have fb1: "\<not> (SystemHasIfAddrs ?dual \<and> expand_wildcard_addrs demo_options)"
    and fb2: "\<not> (SystemHasIfAddrs ?v6only \<and> expand_wildcard_addrs demo_options)"
    and fb3: "\<not> (SystemHasIfAddrs ?v6fails \<and> expand_wildcard_addrs demo_options)"
    by (simp_all add: demo_options_def)
  have a: "CreateAndPrepareListenerSocket ?dual demo_options ?w6 demo_world
             = Returned (Inr (?s6 DSMODE_DUALSTACK), ?w1) \<and>
           (dsmode (?s6 DSMODE_DUALSTACK) = DSMODE_DUALSTACK \<or>
            dsmode (?s6 DSMODE_DUALSTACK) = DSMODE_IPV4)"
    by (simp add: demo_simps wildcard_simps)
  have b: "CreateAndPrepareListenerSocket ?v6only demo_options ?w6 demo_world
             = Returned (Inr (?s6 DSMODE_IPV6), ?w1) \<and>
           \<not> (dsmode (?s6 DSMODE_IPV6) = DSMODE_DUALSTACK \<or>
              dsmode (?s6 DSMODE_IPV6) = DSMODE_IPV4)"
    by (simp add: demo_simps wildcard_simps)
  have b4: "CreateAndPrepareListenerSocket ?v6only demo_options
              (ResolvedAddressSetPort (ResolvedAddressMakeWild4 0) (port (?s6 DSMODE_IPV6))) ?w1
              = Returned (Inr ?s4, ?w2)"
    by (auto simp add: demo_simps wildcard_simps)
  have c: "CreateAndPrepareListenerSocket ?v6fails demo_options ?p6 demo_world
             = Returned (Inl ?e6, ?x1)"
    by (simp add: demo_simps wildcard_simps)
  have c4: "CreateAndPrepareListenerSocket ?v6fails demo_options ?p4 ?x1
              = Returned (Inr ?t4, ?x2)"
    by (auto simp add: demo_simps wildcard_simps)
  from wildcard_fallback_order
         [OF fb1, where p=0 and w=demo_world and ?s6.0="?s6 DSMODE_DUALSTACK" and ?w1.0="?w1"
            and c="[]"] a
  have first: "ListenerContainerAddWildcardAddresses ?dual [] demo_options 0 demo_world =
                 Returned (Inr (port (?s6 DSMODE_DUALSTACK)),
                           Append [] (?s6 DSMODE_DUALSTACK), ?w1)"
    by blast
  from wildcard_fallback_order
         [OF fb2, where p=0 and w=demo_world and ?s6.0="?s6 DSMODE_IPV6" and ?w1.0="?w1"
            and c="[]"] b
  have "case CreateAndPrepareListenerSocket ?v6only demo_options
               (ResolvedAddressSetPort (ResolvedAddressMakeWild4 0) (port (?s6 DSMODE_IPV6)))
               ?w1 of
          Crashed \<Rightarrow> ListenerContainerAddWildcardAddresses ?v6only [] demo_options 0 demo_world
                       = Crashed
        | Returned (Inl e4, w2) \<Rightarrow>
            ListenerContainerAddWildcardAddresses ?v6only [] demo_options 0 demo_world =
              Returned (Inr (port (?s6 DSMODE_IPV6)), Append [] (?s6 DSMODE_IPV6), w2) \<and>
            socket_attempts w2 =
              socket_attempts demo_world @
              [?w6, ResolvedAddressSetPort (ResolvedAddressMakeWild4 0)
                      (port (?s6 DSMODE_IPV6))]
        | Returned (Inr s4, w2) \<Rightarrow>
            ListenerContainerAddWildcardAddresses ?v6only [] demo_options 0 demo_world =
              Returned (Inr (port s4), Append (Append [] (?s6 DSMODE_IPV6)) s4, w2) \<and>
            socket_attempts w2 =
              socket_attempts demo_world @
              [?w6, ResolvedAddressSetPort (ResolvedAddressMakeWild4 0)
                      (port (?s6 DSMODE_IPV6))] \<and>
            addr s4 = ResolvedAddressSetPort (ResolvedAddressMakeWild4 0)
                        (port (?s6 DSMODE_IPV6)) \<and>
            trace w2 =
              trace ?w1 @
              [EvSocket (ResolvedAddressSetPort (ResolvedAddressMakeWild4 0)
                           (port (?s6 DSMODE_IPV6))),
               EvBind (sock s4) (ResolvedAddressSetPort (ResolvedAddressMakeWild4 0)
                                   (port (?s6 DSMODE_IPV6))),
               EvListen (sock s4) (GetMaxAcceptQueueSize ?v6only)] \<and>
            (posix_sockets ?v6only \<longrightarrow> port s4 = port (?s6 DSMODE_IPV6))"
    by blast
  then have second: "ListenerContainerAddWildcardAddresses ?v6only [] demo_options 0 demo_world =
              Returned (Inr (port ?s4), Append (Append [] (?s6 DSMODE_IPV6)) ?s4, ?w2)"
    unfolding b4 by simp
  from wildcard_fallback_order
         [OF fb3, where p=8080 and w=demo_world and ?e6.0="?e6" and ?w1.0="?x1" and c="[]"] c
  have "case CreateAndPrepareListenerSocket ?v6fails demo_options ?p4 ?x1 of
          Crashed \<Rightarrow> ListenerContainerAddWildcardAddresses ?v6fails [] demo_options 8080
                       demo_world = Crashed
        | Returned (Inl e4, w2) \<Rightarrow>
            ListenerContainerAddWildcardAddresses ?v6fails [] demo_options 8080 demo_world =
              Returned (Inl (FailedPreconditionError
                              (''Failed to add any wildcard listeners: '' @
                               message ?e6 @ message e4)),
                        [], w2) \<and>
            socket_attempts w2 = socket_attempts demo_world @ [?p6, ?p4]
        | Returned (Inr s4, w2) \<Rightarrow>
            ListenerContainerAddWildcardAddresses ?v6fails [] demo_options 8080 demo_world =
              Returned (Inr (port s4), Append [] s4, w2) \<and>
            socket_attempts w2 = socket_attempts demo_world @ [?p6, ?p4] \<and>
            addr s4 = ?p4 \<and>
            trace w2 =
              trace ?x1 @
              [EvSocket ?p4, EvBind (sock s4) ?p4,
               EvListen (sock s4) (GetMaxAcceptQueueSize ?v6fails)]"
    by blast
  then have third: "ListenerContainerAddWildcardAddresses ?v6fails [] demo_options 8080 demo_world =
              Returned (Inr (port ?t4), Append [] ?t4, ?x2)"
    unfolding c4 by simp
  from first second third show ?thesis
    by (simp add: Append_def)
qed

subsection \<open>Duplicate addresses\<close>

text \<open>
  C7, as stated, fails: the wildcard fallback appends without looking the address up.
  Two binds of the wildcard at port 0 into one container, on a dual-stack system, leave
  two entries whose stored address is the IPv6 wildcard with port 0.
\<close>

theorem wildcard_twice_duplicates_address:
  "ListenerContainerAddWildcardAddresses (demo_os [] (\<lambda>a. False) DSMODE_DUALSTACK None)
     [] demo_options 0 demo_world =
     Returned (Inr 40003,
               [\<lparr>sock = 3, port = 40003, zero_copy_enabled = True,
                 addr = ResolvedAddressMakeWild6 0, dsmode = DSMODE_DUALSTACK\<rparr>],
               \<lparr>open_fds = {3},
                trace = [EvSocket (ResolvedAddressMakeWild6 0),
                         EvBind 3 (ResolvedAddressMakeWild6 0), EvListen 3 4096]\<rparr>) \<and>
   ListenerContainerAddWildcardAddresses (demo_os [] (\<lambda>a. False) DSMODE_DUALSTACK None)
     [\<lparr>sock = 3, port = 40003, zero_copy_enabled = True,
       addr = ResolvedAddressMakeWild6 0, dsmode = DSMODE_DUALSTACK\<rparr>]
     demo_options 0
     \<lparr>open_fds = {3},
      trace = [EvSocket (ResolvedAddressMakeWild6 0),
               EvBind 3 (ResolvedAddressMakeWild6 0), EvListen 3 4096]\<rparr> =
     Returned (Inr 40006,
               [\<lparr>sock = 3, port = 40003, zero_copy_enabled = True,
                 addr = ResolvedAddressMakeWild6 0, dsmode = DSMODE_DUALSTACK\<rparr>,
                \<lparr>sock = 6, port = 40006, zero_copy_enabled = True,
                 addr = ResolvedAddressMakeWild6 0, dsmode = DSMODE_DUALSTACK\<rparr>],
               \<lparr>open_fds = {3, 6},
                trace = [EvSocket (ResolvedAddressMakeWild6 0),
                         EvBind 3 (ResolvedAddressMakeWild6 0), EvListen 3 4096,
                         EvSocket (ResolvedAddressMakeWild6 0),
                         EvBind 6 (ResolvedAddressMakeWild6 0), EvListen 6 4096]\<rparr>) \<and>
   \<not> distinct (map addr
         [\<lparr>sock = 3, port = 40003, zero_copy_enabled = True,
           addr = ResolvedAddressMakeWild6 0, dsmode = DSMODE_DUALSTACK\<rparr>,
          \<lparr>sock = 6, port = 40006, zero_copy_enabled = True,
           addr = ResolvedAddressMakeWild6 0, dsmode = DSMODE_DUALSTACK\<rparr>])"
  by (auto simp add: demo_simps wildcard_simps)

text \<open>
  C7, amended. \<^verbatim>\<open>ListenerContainerAddAllLocalAddresses\<close> passes over an interface address
  that, with the port set, equals the address of an entry of the container: the loop goes
  on as if the entry were not in the list. So a call on a container whose addresses are
  pairwise distinct, on a system that reports no IPv4-mapped interface address, returns a
  container whose addresses are pairwise distinct.
\<close>

theorem AddAllLocal_skips_duplicates:
  "(interface_address os q x = Some a \<and> ok (ResolvedAddressToString os a) \<and>
    ok (Find (listener_sockets st) a) \<longrightarrow>
      add_all_loop os options q (x # rest) st = add_all_loop os options q rest st) \<and>
   (distinct (map addr c) \<and> no_v4mapped_interfaces os \<and>
    ListenerContainerAddAllLocalAddresses os c options p w = Returned (r, c', w') \<longrightarrow>
      distinct (map addr c'))"
proof (rule conjI; rule impI)
  assume "interface_address os q x = Some a \<and> ok (ResolvedAddressToString os a) \<and>
          ok (Find (listener_sockets st) a)"
  then have "skipped os options q (listener_sockets st) x"
    by (simp add: skipped_def)
  then show "add_all_loop os options q (x # rest) st = add_all_loop os options q rest st"
    by (rule loop_skip)
next
  assume h: "distinct (map addr c) \<and> no_v4mapped_interfaces os \<and>
    ListenerContainerAddAllLocalAddresses os c options p w = Returned (r, c', w')"
  then have d: "distinct (map addr c)" and nm: "no_v4mapped_interfaces os"
    and run: "ListenerContainerAddAllLocalAddresses os c options p w = Returned (r, c', w')"
    by simp_all
  from AddAllLocal_container [OF run]
  show "distinct (map addr c')"
  proof
    assume "c' = c"
    with d show ?thesis by simp
  next
    assume "\<exists>q w0 rc ifa err st.
            getifaddrs_oracle os w0 = (rc, ifa, err) \<and>
            add_all_loop os options q ifa (initial_state c w0) = Returned st \<and>
            c' = listener_sockets st"
    then obtain q w0 rc ifa err st where ifs: "getifaddrs_oracle os w0 = (rc, ifa, err)"
      and loop: "add_all_loop os options q ifa (initial_state c w0) = Returned st"
      and c': "c' = listener_sockets st"
      by blast
    have "\<forall>x\<in>set ifa. \<forall>a. interface_address os q x = Some a \<longrightarrow>
            ResolvedAddressIsV4Mapped a = None"
    proof (intro ballI allI impI)
      fix x a
      assume x: "x \<in> set ifa" and a: "interface_address os q x = Some a"
      from nm ifs x have "\<forall>sa. ifa_addr x = Some sa \<longrightarrow> ResolvedAddressIsV4Mapped sa = None"
        unfolding no_v4mapped_interfaces_def by blast
      then show "ResolvedAddressIsV4Mapped a = None"
        using a by (rule interface_address_unmapped)
    qed
    with loop_distinct [OF loop] d c' show ?thesis
      by (simp add: initial_state_def)
  qed
qed

theorem AddAllLocal_skips_duplicates_witness:
  "add_all_loop (demo_os bonded_interfaces (\<lambda>a. False) DSMODE_DUALSTACK None) demo_options 8080
     [interface ''eth0'' (ipv4 [10, 0, 0, 1]), interface ''eth1'' (ipv4 [10, 0, 0, 2])]
     \<lparr>op_status = None, no_local_addresses = False, assigned_port = 8080,
      listener_sockets = [demo_socket 3 (demo_address [10, 0, 0, 1] 8080)],
      sys = demo_world\<rparr> =
   add_all_loop (demo_os bonded_interfaces (\<lambda>a. False) DSMODE_DUALSTACK None) demo_options 8080
     [interface ''eth1'' (ipv4 [10, 0, 0, 2])]
     \<lparr>op_status = None, no_local_addresses = False, assigned_port = 8080,
      listener_sockets = [demo_socket 3 (demo_address [10, 0, 0, 1] 8080)],
      sys = demo_world\<rparr> \<and>
   (\<exists>r c' w'.
      ListenerContainerAddAllLocalAddresses
        (demo_os bonded_interfaces (\<lambda>a. False) DSMODE_DUALSTACK None)
        [] demo_options 8080 demo_world = Returned (r, c', w') \<and>
      length c' = 2 \<and> distinct (map addr c'))"
proof -
  let ?os = "demo_os bonded_interfaces (\<lambda>a. False) DSMODE_DUALSTACK None"
  let ?a1 = "demo_address [10, 0, 0, 1] 8080"
  let ?a2 = "demo_address [10, 0, 0, 2] 8080"
  let ?st = "\<lparr>op_status = None, no_local_addresses = False, assigned_port = 8080,
              listener_sockets = [demo_socket 3 ?a1], sys = demo_world\<rparr>"
  let ?c = "[\<lparr>sock = 3, port = 8080, zero_copy_enabled = True, addr = ?a1,
              dsmode = DSMODE_NONE\<rparr>,
             \<lparr>sock = 6, port = 8080, zero_copy_enabled = True, addr = ?a2,
              dsmode = DSMODE_NONE\<rparr>]"
  let ?w = "\<lparr>open_fds = {3, 6},
             trace = [EvSocket ?a1, EvBind 3 ?a1, EvListen 3 4096,
                      EvSocket ?a2, EvBind 6 ?a2, EvListen 6 4096]\<rparr>"
  have dup: "interface_address ?os 8080 (interface ''eth0'' (ipv4 [10, 0, 0, 1])) = Some ?a1 \<and>
             ok (ResolvedAddressToString ?os ?a1) \<and> ok (Find (listener_sockets ?st) ?a1)"
    by (simp add: demo_simps loop_simps)
  have nm: "no_v4mapped_interfaces ?os"
    by (auto simp: no_v4mapped_interfaces_def demo_os_def bonded_interfaces_def interface_def
                   ipv4_def ResolvedAddressIsV4Mapped_def)
  have run: "ListenerContainerAddAllLocalAddresses ?os [] demo_options 8080 demo_world
               = Returned (Inr 8080, ?c, ?w)"
    by (auto simp add: demo_simps loop_simps bonded_interfaces_def)
  have d0: "distinct (map addr ([] :: ListenerSocket list))" by simp
  from AddAllLocal_skips_duplicates
         [where os="?os" and q=8080 and x="interface ''eth0'' (ipv4 [10, 0, 0, 1])"
            and a="?a1" and st="?st" and options=demo_options
            and rest="[interface ''eth1'' (ipv4 [10, 0, 0, 2])]"
            and c="[]" and p=8080 and w=demo_world and r="Inr 8080" and c'="?c" and w'="?w"]
       dup nm run d0
  have "add_all_loop ?os demo_options 8080
          [interface ''eth0'' (ipv4 [10, 0, 0, 1]), interface ''eth1'' (ipv4 [10, 0, 0, 2])] ?st =
        add_all_loop ?os demo_options 8080 [interface ''eth1'' (ipv4 [10, 0, 0, 2])] ?st \<and>
        distinct (map addr ?c)"
    by blast
  with run show ?thesis by auto
qed


end
